theory Spec2Isabelle
  imports Main "HOL-Library.AList" "HOL-Library.Multiset"
begin

section \<open>Data model of \<open>server.js\<close>\<close>

text \<open>
  A card symbol is a JavaScript string holding an emoji. It is modelled as the list of its
  Unicode code points; two well-formed strings are \<open>===\<close> exactly when these lists are equal.
  A card whose symbol was read beyond the end of the selected symbols carries
  \<open>undefined\<close>, modelled as \<open>None\<close>.
\<close>

type_synonym symbol = "int list"

record card =
  card_id :: nat
  symbol :: "symbol option"
  matched :: bool
  flipped :: bool

text \<open>
  The room configuration. \<open>gridSize\<close> and \<open>maxPlayers\<close> are taken to be non-negative
  integers, \<open>theme\<close> a string and \<open>timeLimit\<close> a number or \<open>null\<close>.
\<close>

record gameConfig =
  gridSize :: nat
  theme :: string
  maxPlayers :: nat
  timeLimit :: "int option"

section \<open>The board generator: \<open>GameState.generateGameBoard\<close>\<close>

definition emojis :: "symbol list" where
  "emojis = [ [0x1f3ae], [0x1f3af], [0x1f3a8], [0x1f3ad], [0x1f3aa], [0x1f3ab], [0x1f3ac],
     [0x1f3a4], [0x1f3a7], [0x1f3bc], [0x1f3b9], [0x1f3ba], [0x1f3b8], [0x1f941], [0x1f3b7],
     [0x1f3bb] ]"

definition animals :: "symbol list" where
  "animals = [ [0x1f436], [0x1f431], [0x1f42d], [0x1f439], [0x1f430], [0x1f98a], [0x1f43b],
     [0x1f43c], [0x1f428], [0x1f42f], [0x1f981], [0x1f42e], [0x1f437], [0x1f438], [0x1f435],
     [0x1f414] ]"

definition numbers :: "symbol list" where
  "numbers = [ [0x31, 0xfe0f, 0x20e3], [0x32, 0xfe0f, 0x20e3], [0x33, 0xfe0f, 0x20e3],
     [0x34, 0xfe0f, 0x20e3], [0x35, 0xfe0f, 0x20e3], [0x36, 0xfe0f, 0x20e3],
     [0x37, 0xfe0f, 0x20e3], [0x38, 0xfe0f, 0x20e3], [0x39, 0xfe0f, 0x20e3], [0x1f51f],
     [0x1f522], [0x1f4af], [0x1f4ca], [0x1f4c8], [0x1f4c9], [0x1f4b9] ]"

definition letters :: "symbol list" where
  "letters = [ [0x1f170, 0xfe0f], [0x1f171, 0xfe0f], [0x1f17e, 0xfe0f], [0x1f18e],
     [0x1f17f, 0xfe0f], [0x1f198], [0x1f192], [0x1f195], [0x1f193], [0x1f199], [0x1f524],
     [0x1f520], [0x1f521], [0x1f4a0], [0x1f537], [0x1f536] ]"

text \<open>The own properties of the object literal \<open>themes\<close>.\<close>

definition themes :: "string \<Rightarrow> symbol list option" where
  "themes t =
     (if t = ''emojis'' then Some emojis
      else if t = ''animals'' then Some animals
      else if t = ''numbers'' then Some numbers
      else if t = ''letters'' then Some letters
      else None)"

text \<open>
  \<open>themes[theme]\<close> also finds the properties a plain object inherits from
  \<open>Object.prototype\<close>. Each of them is a function or an object, hence truthy, so
  \<open>themes[theme] || themes.emojis\<close> keeps it, and \<open>symbols.slice\<close> is then not a
  function: the call throws a TypeError.
\<close>

definition Object_prototype_keys :: "string list" where
  "Object_prototype_keys = [''constructor'', ''__defineGetter__'', ''__defineSetter__'',
     ''hasOwnProperty'', ''__lookupGetter__'', ''__lookupSetter__'', ''isPrototypeOf'',
     ''propertyIsEnumerable'', ''toString'', ''valueOf'', ''__proto__'', ''toLocaleString'']"

text \<open>\<open>const symbols = themes[theme] || themes.emojis\<close>; \<open>None\<close> is the TypeError above.\<close>

definition theme_symbols :: "string \<Rightarrow> symbol list option" where
  "theme_symbols t =
     (case themes t of
        Some syms \<Rightarrow> Some syms
      | None \<Rightarrow> if t \<in> set Object_prototype_keys then None else Some emojis)"

text \<open>\<open>xs[i]\<close> on an array: \<open>undefined\<close> beyond the end.\<close>

definition js_index :: "'a list \<Rightarrow> nat \<Rightarrow> 'a option" where
  "js_index xs i = (if i < length xs then Some (xs ! i) else None)"

text \<open>The two cards pushed by iteration \<open>i\<close> of the pair loop.\<close>

definition pair_cards :: "symbol list \<Rightarrow> nat \<Rightarrow> card list" where
  "pair_cards selectedSymbols i =
     [\<lparr>card_id = i * 2, symbol = js_index selectedSymbols i, matched = False, flipped = False\<rparr>,
      \<lparr>card_id = i * 2 + 1, symbol = js_index selectedSymbols i, matched = False,
        flipped = False\<rparr>]"

text \<open>
  \<open>for (let i = 0; i < pairs; i++) cards.push(..., ...)\<close>, with the number of iterations
  still to run as the recursion argument.
\<close>

fun push_pairs :: "symbol list \<Rightarrow> nat \<Rightarrow> nat \<Rightarrow> card list \<Rightarrow> card list" where
  "push_pairs selectedSymbols i 0 cards = cards"
| "push_pairs selectedSymbols i (Suc k) cards =
     push_pairs selectedSymbols (Suc i) k (cards @ pair_cards selectedSymbols i)"

text \<open>
  The destructuring assignment that exchanges \<open>cards[i]\<close> and \<open>cards[j]\<close>: both are
  read first, then \<open>cards[i]\<close> and \<open>cards[j]\<close> are written.
\<close>

definition swap :: "nat \<Rightarrow> nat \<Rightarrow> 'a list \<Rightarrow> 'a list" where
  "swap i j cards = (cards[i := cards ! j])[j := cards ! i]"

text \<open>
  The Fisher-Yates loop \<open>for (let i = cards.length - 1; i > 0; i--)\<close>. The draw
  \<open>Math.floor(Math.random() * (i + 1))\<close> is some index in \<open>0..i\<close>; the model takes the draws
  as a function \<open>rnd\<close> of the loop index and reduces each one into that range.
\<close>

fun fisher_yates :: "(nat \<Rightarrow> nat) \<Rightarrow> nat \<Rightarrow> 'a list \<Rightarrow> 'a list" where
  "fisher_yates rnd 0 cards = cards"
| "fisher_yates rnd (Suc k) cards =
     fisher_yates rnd k (swap (Suc k) (rnd (Suc k) mod (Suc k + 1)) cards)"

text \<open>
  \<open>generateGameBoard\<close> returns the array it stores in \<open>room.gameBoard\<close>. \<open>pairs\<close> is
  \<open>totalCards / 2\<close>, a half-integer when \<open>totalCards\<close> is odd: the loop \<open>i < pairs\<close> then
  runs \<open>(totalCards + 1) div 2\<close> times, and \<open>slice(0, pairs)\<close> truncates to
  \<open>totalCards div 2\<close>.
\<close>

definition generateGameBoard :: "gameConfig \<Rightarrow> (nat \<Rightarrow> nat) \<Rightarrow> card list option" where
  "generateGameBoard cfg rnd =
     (let totalCards = gridSize cfg * gridSize cfg in
      case theme_symbols (theme cfg) of
        None \<Rightarrow> None
      | Some symbols \<Rightarrow>
          let selectedSymbols = take (totalCards div 2) symbols;
              cards = push_pairs selectedSymbols 0 ((totalCards + 1) div 2) []
          in Some (fisher_yates rnd (length cards - 1) cards))"

section \<open>Rooms, players and the server state\<close>

text \<open>
  JavaScript numbers that the server only ever counts upwards from zero, with the one
  value \<open>NaN\<close> that \<open>x % 0\<close> and \<open>undefined + 1\<close> produce.
\<close>

datatype jsnum = Num nat | NaN

text \<open>\<open>x + 1\<close>, also the value stored by \<open>x++\<close>.\<close>

fun js_succ :: "jsnum \<Rightarrow> jsnum" where
  "js_succ (Num n) = Num (n + 1)"
| "js_succ NaN = NaN"

text \<open>\<open>x % n\<close> for a length \<open>n\<close>.\<close>

fun js_rem :: "jsnum \<Rightarrow> nat \<Rightarrow> jsnum" where
  "js_rem (Num m) n = (if n = 0 then NaN else Num (m mod n))"
| "js_rem NaN n = NaN"

text \<open>\<open>a > b\<close>: false as soon as one side is \<open>NaN\<close> or \<open>undefined\<close>.\<close>

fun js_gt :: "jsnum option \<Rightarrow> jsnum option \<Rightarrow> bool" where
  "js_gt (Some (Num a)) (Some (Num b)) = (a > b)"
| "js_gt _ _ = False"

text \<open>\<open>xs[x]\<close> for a number \<open>x\<close>.\<close>

fun js_index_num :: "'a list \<Rightarrow> jsnum \<Rightarrow> 'a option" where
  "js_index_num xs (Num i) = js_index xs i"
| "js_index_num xs NaN = None"

record player =
  player_id :: string
  name :: string
  connected :: bool

text \<open>
  A room object. \<open>gameBoard\<close> and \<open>flippedCards\<close> hold references to card objects, here
  addresses into the card store of the server state. \<open>scores\<close> is an object keyed by
  socket ids; its keys are kept in insertion order, which is the order \<open>Object.keys\<close>
  returns for keys that are not array indices (a socket id is a 20-character string).
  Times are milliseconds as returned by \<open>Date.now()\<close>.
\<close>

record room =
  room_id :: string
  config :: gameConfig
  players :: "player list"
  gameBoard :: "nat list"
  currentPlayer :: jsnum
  gameStarted :: bool
  paused :: bool
  pausedBy :: "string option"
  pausedAt :: "int option"
  scores :: "(string \<times> jsnum) list"
  moves :: nat
  startTime :: "int option"
  flippedCards :: "nat list"
  matchedPairs :: nat

text \<open>
  The closure passed to \<open>setTimeout\<close> in the flip-card handler: it captures the room
  object, the two card objects, \<open>roomId\<close> and \<open>currentPlayer\<close>, of which it reads only
  the immutable \<open>id\<close>.
\<close>

record timer =
  t_roomId :: string
  t_room :: nat
  t_currentPlayer_id :: string
  t_card1 :: nat
  t_card2 :: nat

text \<open>
  The server state: the two maps of the \<open>GameState\<close> instance, the store of room objects
  and of card objects (an address is an index; objects are never freed), and the pending
  timeouts, oldest first. Rooms and cards live in a store because timer closures keep
  references to them, also after the room left the map or the board was replaced.
  An entry of \<open>gameState.players\<close> is the copy \<open>{ ...player, roomId }\<close>.
\<close>

record server =
  rooms :: "(string \<times> nat) list"
  players_gs :: "(string \<times> player \<times> string) list"
  room_heap :: "room list"
  card_heap :: "card list"
  timers :: "timer list"

definition init :: server where
  "init = \<lparr>rooms = [], players_gs = [], room_heap = [], card_heap = [], timers = []\<rparr>"

text \<open>What a handler emits, and to whom.\<close>

datatype target =
    ToSocket string
  | ToRoom string
  | ToOthers string string

datatype message =
    Error string
  | RoomJoined string string "player list" gameConfig
  | PlayerJoined player
  | GameStarted "card list" "player option" "(string \<times> jsnum) list"
  | CardFlipped nat "symbol option" string
  | MatchFound nat nat string "(string \<times> jsnum) list"
  | GameEnded "(string \<times> jsnum) list" int nat "player option"
  | NoMatch nat nat
  | TurnChanged "player option"
  | GamePaused string "string option" "string option"
  | GameResumed string string
  | PlayerLeft player
  | PlayerDisconnected player

type_synonym emits = "(target \<times> message) list"

text \<open>\<open>gameState.rooms.get(roomId)\<close>: the address of the room object, if any.\<close>

definition rooms_get :: "server \<Rightarrow> string \<Rightarrow> nat option" where
  "rooms_get s roomId = map_of (rooms s) roomId"

definition the_room :: "server \<Rightarrow> nat \<Rightarrow> room" where
  "the_room s a = room_heap s ! a"

definition the_card :: "server \<Rightarrow> nat \<Rightarrow> card" where
  "the_card s c = card_heap s ! c"

definition set_room :: "nat \<Rightarrow> room \<Rightarrow> server \<Rightarrow> server" where
  "set_room a r s = s\<lparr>room_heap := (room_heap s)[a := r]\<rparr>"

definition set_card :: "nat \<Rightarrow> card \<Rightarrow> server \<Rightarrow> server" where
  "set_card c v s = s\<lparr>card_heap := (card_heap s)[c := v]\<rparr>"

section \<open>\<open>GameState.createRoom\<close> and \<open>GameState.addPlayerToRoom\<close>\<close>

text \<open>
  The \<open>gameConfig\<close> argument of \<open>createRoom\<close>: an object that may or may not carry each
  of the four keys (\<open>None\<close> is an absent key; \<open>{}\<close> is the default argument).
\<close>

record gameConfig_arg =
  arg_gridSize :: "nat option"
  arg_theme :: "string option"
  arg_maxPlayers :: "nat option"
  arg_timeLimit :: "int option option"

definition empty_arg :: gameConfig_arg where
  "empty_arg = \<lparr>arg_gridSize = None, arg_theme = None, arg_maxPlayers = None,
     arg_timeLimit = None\<rparr>"

definition defaultConfig :: gameConfig where
  "defaultConfig = \<lparr>gridSize = 4, theme = ''emojis'', maxPlayers = 2, timeLimit = None\<rparr>"

text \<open>\<open>{ ...defaultConfig, ...gameConfig }\<close>\<close>

definition merge_config :: "gameConfig \<Rightarrow> gameConfig_arg \<Rightarrow> gameConfig" where
  "merge_config d g =
     \<lparr>gridSize = (case arg_gridSize g of None \<Rightarrow> gridSize d | Some v \<Rightarrow> v),
      theme = (case arg_theme g of None \<Rightarrow> theme d | Some v \<Rightarrow> v),
      maxPlayers = (case arg_maxPlayers g of None \<Rightarrow> maxPlayers d | Some v \<Rightarrow> v),
      timeLimit = (case arg_timeLimit g of None \<Rightarrow> timeLimit d | Some v \<Rightarrow> v)\<rparr>"

definition new_room :: "string \<Rightarrow> gameConfig_arg \<Rightarrow> room" where
  "new_room roomId g =
     \<lparr>room_id = roomId, config = merge_config defaultConfig g, players = [], gameBoard = [],
      currentPlayer = Num 0, gameStarted = False, paused = False, pausedBy = None,
      pausedAt = None, scores = [], moves = 0, startTime = None, flippedCards = [],
      matchedPairs = 0\<rparr>"

text \<open>
  \<open>this.rooms.set(roomId, {...})\<close>: a fresh room object is allocated and the map entry
  is set to it, whether or not the key was there.
\<close>

definition createRoom :: "server \<Rightarrow> string \<Rightarrow> gameConfig_arg \<Rightarrow> server" where
  "createRoom s roomId g =
     s\<lparr>rooms := AList.update roomId (length (room_heap s)) (rooms s),
       room_heap := room_heap s @ [new_room roomId g]\<rparr>"

definition addPlayerToRoom :: "server \<Rightarrow> string \<Rightarrow> player \<Rightarrow> server \<times> bool" where
  "addPlayerToRoom s roomId p =
     (case rooms_get s roomId of
        None \<Rightarrow> (s, False)
      | Some a \<Rightarrow>
          let r = the_room s a in
          if length (players r) \<ge> maxPlayers (config r) then (s, False)
          else
            (set_room a
               (r\<lparr>players := players r @ [p],
                  scores := AList.update (player_id p) (Num 0) (scores r)\<rparr>) s
             \<lparr>players_gs := AList.update (player_id p) (p, roomId) (players_gs s)\<rparr>,
             True))"

section \<open>The socket handlers\<close>

text \<open>
  Each handler takes the server state, the id of the socket that sent the event
  (\<open>socket.id\<close>) and the payload, and returns the new state with the messages emitted, in
  order. Payloads are taken to be well typed (strings for ids and names, a number for a
  card id); \<open>console.log\<close> and the membership of sockets in socket.io rooms
  (\<open>socket.join\<close>, \<open>socket.leave\<close>) are not modelled. \<open>Date.now()\<close> is a parameter.
\<close>

text \<open>\<open>roomId.replace(/[^a-zA-Z0-9-_]/g, '')\<close>\<close>

definition roomId_char :: "char \<Rightarrow> bool" where
  "roomId_char c =
     (let n = (of_char c :: int) in
      (of_char CHR ''a'' \<le> n \<and> n \<le> of_char CHR ''z'') \<or>
      (of_char CHR ''A'' \<le> n \<and> n \<le> of_char CHR ''Z'') \<or>
      (of_char CHR ''0'' \<le> n \<and> n \<le> of_char CHR ''9'') \<or> c = CHR ''-'' \<or> c = CHR ''_'')"

definition sanitize_roomId :: "string \<Rightarrow> string" where
  "sanitize_roomId roomId = filter roomId_char roomId"

text \<open>
  \<open>String.prototype.trim\<close> on the characters of the 8-bit \<open>char\<close> type: tab, line feed,
  vertical tab, form feed, carriage return, space and no-break space.
\<close>

definition js_whitespace :: "char \<Rightarrow> bool" where
  "js_whitespace c = ((of_char c :: int) \<in> {9, 10, 11, 12, 13, 32, 160})"

definition trim :: "string \<Rightarrow> string" where
  "trim str = rev (dropWhile js_whitespace (rev (dropWhile js_whitespace str)))"

text \<open>\<open>playerName.replace(/[<>]/g, '').trim()\<close>\<close>

definition sanitize_playerName :: "string \<Rightarrow> string" where
  "sanitize_playerName playerName =
     trim (filter (\<lambda>c. c \<noteq> CHR ''<'' \<and> c \<noteq> CHR ''>'') playerName)"

text \<open>\<open>room.players.find(p => p.id === socket.id)\<close>\<close>

definition find_player :: "string \<Rightarrow> player list \<Rightarrow> player option" where
  "find_player sock ps = find (\<lambda>p. player_id p = sock) ps"

definition join_room :: "server \<Rightarrow> string \<Rightarrow> string \<Rightarrow> string \<Rightarrow> server \<times> emits" where
  "join_room s sock roomId playerName =
     (let sanitizedRoomId = sanitize_roomId roomId;
          sanitizedPlayerName = sanitize_playerName playerName
      in
      if sanitizedRoomId = [] \<or> sanitizedPlayerName = [] then
        (s, [(ToSocket sock, Error ''Invalid room ID or player name'')])
      else
        let s1 = (if rooms_get s sanitizedRoomId = None
                  then createRoom s sanitizedRoomId empty_arg else s);
            p = \<lparr>player_id = sock, name = sanitizedPlayerName, connected = True\<rparr>;
            (s2, success) = addPlayerToRoom s1 sanitizedRoomId p
        in
        if success then
          (case rooms_get s2 sanitizedRoomId of
             None \<Rightarrow> (s2, [(ToSocket sock, Error ''Server error occurred'')])
           | Some a \<Rightarrow>
               (s2, [(ToSocket sock,
                       RoomJoined sanitizedRoomId sock (players (the_room s2 a))
                         (config (the_room s2 a))),
                     (ToOthers sock sanitizedRoomId, PlayerJoined p)]))
        else (s2, [(ToSocket sock, Error ''Unable to join room. Room may be full.'')]))"

text \<open>
  The start-game handler. The fresh card objects of the new board are allocated at the
  end of the card store. A TypeError thrown by \<open>generateGameBoard\<close> is caught by the
  handler before anything was assigned.
\<close>

definition start_game ::
  "server \<Rightarrow> string \<Rightarrow> string \<Rightarrow> int \<Rightarrow> (nat \<Rightarrow> nat) \<Rightarrow> server \<times> emits" where
  "start_game s sock roomId now rnd =
     (case rooms_get s roomId of
        None \<Rightarrow> (s, [(ToSocket sock, Error ''Room not found'')])
      | Some a \<Rightarrow>
          let r = the_room s a in
          (case find_player sock (players r) of
             None \<Rightarrow> (s, [(ToSocket sock, Error ''Player not in room'')])
           | Some p \<Rightarrow>
               (case generateGameBoard (config r) rnd of
                  None \<Rightarrow> (s, [(ToSocket sock, Error ''Error starting game'')])
                | Some cards \<Rightarrow>
                    let base = length (card_heap s);
                        r1 = r\<lparr>gameBoard := [base ..< base + length cards],
                               gameStarted := True, startTime := Some now,
                               currentPlayer := Num 0, moves := 0\<rparr>
                    in
                    (set_room a r1 (s\<lparr>card_heap := card_heap s @ cards\<rparr>),
                     [(ToRoom roomId,
                        GameStarted (map (\<lambda>c. c\<lparr>flipped := False\<rparr>) cards)
                          (js_index_num (players r1) (currentPlayer r1)) (scores r1))]))))"

text \<open>\<open>room.gameBoard.find(c => c.id === cardId)\<close>, on a board of card references.\<close>

definition find_card :: "server \<Rightarrow> nat \<Rightarrow> nat list \<Rightarrow> nat option" where
  "find_card s cardId board = find (\<lambda>c. card_id (the_card s c) = cardId) board"

text \<open>
  The flip-card handler. \<open>room.players[room.currentPlayer]\<close> is \<open>undefined\<close> when the index
  is out of range or \<open>NaN\<close>; reading its \<open>id\<close> then throws, and the handler's
  \<open>catch\<close> reports the error. The card found is a reference into the card store. When the
  push makes \<open>flippedCards\<close> two long, the resolution callback is scheduled.
\<close>

definition flip_card :: "server \<Rightarrow> string \<Rightarrow> string \<Rightarrow> nat \<Rightarrow> server \<times> emits" where
  "flip_card s sock roomId cardId =
     (case rooms_get s roomId of
        None \<Rightarrow> (s, [(ToSocket sock, Error ''Game not started or room not found'')])
      | Some a \<Rightarrow>
          let r = the_room s a in
          if \<not> gameStarted r then
            (s, [(ToSocket sock, Error ''Game not started or room not found'')])
          else if paused r then (s, [(ToSocket sock, Error ''Game is currently paused'')])
          else
            (case js_index_num (players r) (currentPlayer r) of
               None \<Rightarrow> (s, [(ToSocket sock, Error ''Error processing card flip'')])
             | Some cp \<Rightarrow>
                 if player_id cp \<noteq> sock then (s, [(ToSocket sock, Error ''Not your turn'')])
                 else
                   (case find_card s cardId (gameBoard r) of
                      None \<Rightarrow> (s, [(ToSocket sock, Error ''Invalid card selection'')])
                    | Some c \<Rightarrow>
                        if matched (the_card s c) \<or> flipped (the_card s c) then
                          (s, [(ToSocket sock, Error ''Invalid card selection'')])
                        else
                          let s1 = set_card c ((the_card s c)\<lparr>flipped := True\<rparr>) s;
                              r1 = r\<lparr>flippedCards := flippedCards r @ [c]\<rparr>;
                              s2 = set_room a r1 s1;
                              out = [(ToRoom roomId,
                                       CardFlipped (card_id (the_card s1 c))
                                         (symbol (the_card s1 c)) sock)]
                          in
                          if length (flippedCards r1) = 2 then
                            (s2\<lparr>timers := timers s2 @
                                  [\<lparr>t_roomId = roomId, t_room = a,
                                    t_currentPlayer_id = player_id cp,
                                    t_card1 = flippedCards r1 ! 0,
                                    t_card2 = flippedCards r1 ! 1\<rparr>]\<rparr>, out)
                          else (s2, out))))"

text \<open>\<open>Object.keys(obj)\<close> and \<open>obj[k]\<close> (\<open>undefined\<close> is \<open>None\<close>) on the scores object.\<close>

definition Object_keys :: "('k \<times> 'v) list \<Rightarrow> 'k list" where
  "Object_keys obj = map fst obj"

definition js_get :: "('k \<times> 'v) list \<Rightarrow> 'k \<Rightarrow> 'v option" where
  "js_get obj k = map_of obj k"

text \<open>\<open>obj[k]++\<close>: \<open>undefined + 1\<close> is \<open>NaN\<close>.\<close>

definition js_incr :: "(string \<times> jsnum) list \<Rightarrow> string \<Rightarrow> (string \<times> jsnum) list" where
  "js_incr obj k =
     AList.update k (case js_get obj k of None \<Rightarrow> NaN | Some v \<Rightarrow> js_succ v) obj"

text \<open>
  \<open>xs.reduce(f)\<close> without an initial value: a TypeError (\<open>None\<close>) on the empty array.
\<close>

fun js_reduce :: "('a \<Rightarrow> 'a \<Rightarrow> 'a) \<Rightarrow> 'a list \<Rightarrow> 'a option" where
  "js_reduce f [] = None"
| "js_reduce f (x # xs) = Some (foldl f x xs)"

text \<open>
  \<open>room.players.find(p => p.id === Object.keys(room.scores).reduce((a, b) =>
  room.scores[a] > room.scores[b] ? a : b))\<close>. The reduction runs inside the callback of
  \<open>find\<close>, so with no player it is not evaluated at all. The outer \<open>None\<close> is the
  TypeError of the reduction; \<open>Some None\<close> is the winner \<open>undefined\<close>.
\<close>

definition top_scorer :: "(string \<times> jsnum) list \<Rightarrow> string option" where
  "top_scorer sc =
     js_reduce (\<lambda>a b. if js_gt (js_get sc a) (js_get sc b) then a else b) (Object_keys sc)"

definition winner_of :: "room \<Rightarrow> player option option" where
  "winner_of r =
     (if players r = [] then Some None
      else case top_scorer (scores r) of
             None \<Rightarrow> None
           | Some k \<Rightarrow> Some (find_player k (players r)))"

text \<open>\<open>endTime - room.startTime\<close>, where \<open>null\<close> counts as 0.\<close>

definition js_time :: "int option \<Rightarrow> int" where
  "js_time t = (case t of None \<Rightarrow> 0 | Some v \<Rightarrow> v)"

text \<open>The last two statements of the callback: \<open>room.flippedCards = []; room.moves++\<close>.\<close>

definition end_resolution :: "nat \<Rightarrow> server \<Rightarrow> server" where
  "end_resolution a s =
     set_room a ((the_room s a)\<lparr>flippedCards := [], moves := moves (the_room s a) + 1\<rparr>) s"

text \<open>
  The callback of \<open>setTimeout\<close> in the flip-card handler, run on the objects its closure
  captured. It has no \<open>try\<close>: an exception in it is uncaught (\<open>None\<close>).
\<close>

definition resolution :: "server \<Rightarrow> timer \<Rightarrow> int \<Rightarrow> (server \<times> emits) option" where
  "resolution s t now =
     (let a = t_room t; c1 = t_card1 t; c2 = t_card2 t; roomId = t_roomId t;
          pid = t_currentPlayer_id t
      in
      if symbol (the_card s c1) = symbol (the_card s c2) then
        let s1 = set_card c1 ((the_card s c1)\<lparr>matched := True\<rparr>) s;
            s2 = set_card c2 ((the_card s1 c2)\<lparr>matched := True\<rparr>) s1;
            r = the_room s2 a;
            r1 = r\<lparr>scores := js_incr (scores r) pid, matchedPairs := matchedPairs r + 1\<rparr>;
            s3 = set_room a r1 s2;
            out = [(ToRoom roomId,
                     MatchFound (card_id (the_card s3 c1)) (card_id (the_card s3 c2)) pid
                       (scores r1))]
        in
        if matchedPairs r1 * 2 = length (gameBoard r1) then
          (case winner_of r1 of
             None \<Rightarrow> None
           | Some winner \<Rightarrow>
               Some (end_resolution a s3,
                     out @ [(ToRoom roomId,
                              GameEnded (scores r1) (now - js_time (startTime r1)) (moves r1)
                                winner)]))
        else Some (end_resolution a s3, out)
      else
        let s1 = set_card c1 ((the_card s c1)\<lparr>flipped := False\<rparr>) s;
            s2 = set_card c2 ((the_card s1 c2)\<lparr>flipped := False\<rparr>) s1;
            r = the_room s2 a;
            r1 = r\<lparr>currentPlayer := js_rem (js_succ (currentPlayer r)) (length (players r))\<rparr>;
            s3 = set_room a r1 s2
        in
        Some (end_resolution a s3,
              [(ToRoom roomId, NoMatch (card_id (the_card s3 c1)) (card_id (the_card s3 c2))),
               (ToRoom roomId, TurnChanged (js_index_num (players r1) (currentPlayer r1)))]))"

definition pause_game :: "server \<Rightarrow> string \<Rightarrow> string \<Rightarrow> int \<Rightarrow> server \<times> emits" where
  "pause_game s sock roomId now =
     (case rooms_get s roomId of
        None \<Rightarrow> (s, [(ToSocket sock, Error ''Cannot pause: Game not started or room not found'')])
      | Some a \<Rightarrow>
          let r = the_room s a in
          if \<not> gameStarted r then
            (s, [(ToSocket sock, Error ''Cannot pause: Game not started or room not found'')])
          else
            (case find_player sock (players r) of
               None \<Rightarrow> (s, [(ToSocket sock, Error ''Player not in room'')])
             | Some p \<Rightarrow>
                 if \<not> paused r then
                   (set_room a (r\<lparr>paused := True, pausedBy := Some sock,
                                  pausedAt := Some now\<rparr>) s,
                    [(ToRoom roomId, GamePaused sock (Some (name p)) None)])
                 else (s, [])))"

text \<open>
  The resume-game handler. \<open>if (room.pausedAt)\<close> is false for \<open>null\<close> and for 0;
  \<open>room.startTime += pauseDuration\<close> reads \<open>null\<close> as 0.
\<close>

definition resume_game :: "server \<Rightarrow> string \<Rightarrow> string \<Rightarrow> int \<Rightarrow> server \<times> emits" where
  "resume_game s sock roomId now =
     (case rooms_get s roomId of
        None \<Rightarrow>
          (s, [(ToSocket sock, Error ''Cannot resume: Game not started or room not found'')])
      | Some a \<Rightarrow>
          let r = the_room s a in
          if \<not> gameStarted r then
            (s, [(ToSocket sock, Error ''Cannot resume: Game not started or room not found'')])
          else
            (case find_player sock (players r) of
               None \<Rightarrow> (s, [(ToSocket sock, Error ''Player not in room'')])
             | Some p \<Rightarrow>
                 if paused r then
                   let r1 = r\<lparr>paused := False\<rparr>;
                       r2 = (case pausedAt r1 of
                               None \<Rightarrow> r1
                             | Some t \<Rightarrow>
                                 if t = 0 then r1
                                 else r1\<lparr>startTime :=
                                          Some (js_time (startTime r1) + (now - t))\<rparr>)
                   in
                   (set_room a (r2\<lparr>pausedBy := None, pausedAt := None\<rparr>) s,
                    [(ToRoom roomId, GameResumed sock (name p))])
                 else (s, [])))"

text \<open>\<open>xs.findIndex(P)\<close>, with \<open>None\<close> for \<open>-1\<close>.\<close>

fun findIndex :: "('a \<Rightarrow> bool) \<Rightarrow> 'a list \<Rightarrow> nat option" where
  "findIndex P [] = None"
| "findIndex P (x # xs) = (if P x then Some 0 else map_option Suc (findIndex P xs))"

text \<open>\<open>room.players.findIndex(p => p.id === socket.id)\<close>\<close>

definition find_player_index :: "string \<Rightarrow> player list \<Rightarrow> nat option" where
  "find_player_index sock ps = findIndex (\<lambda>p. player_id p = sock) ps"

text \<open>\<open>xs.splice(i, 1)\<close>\<close>

definition splice1 :: "nat \<Rightarrow> 'a list \<Rightarrow> 'a list" where
  "splice1 i xs = take i xs @ drop (Suc i) xs"

definition leave_room :: "server \<Rightarrow> string \<Rightarrow> string \<Rightarrow> server \<times> emits" where
  "leave_room s sock roomId =
     (let (s1, out) =
        (case rooms_get s roomId of
           None \<Rightarrow> (s, [])
         | Some a \<Rightarrow>
             let r = the_room s a in
             (case find_player_index sock (players r) of
                None \<Rightarrow> (s, [])
              | Some playerIndex \<Rightarrow>
                  let p = players r ! playerIndex;
                      r1 = r\<lparr>players := splice1 playerIndex (players r)\<rparr>;
                      s1 = set_room a r1 s
                  in
                  (if players r1 = [] then s1\<lparr>rooms := AList.delete roomId (rooms s1)\<rparr>
                   else s1,
                   [(ToOthers sock roomId, PlayerLeft p)])))
      in (s1\<lparr>players_gs := AList.delete sock (players_gs s1)\<rparr>, out))"

text \<open>
  The disconnect handler. \<open>player.connected = false\<close> writes to the first player object
  of the room with this id, in place.
\<close>

definition disconnect :: "server \<Rightarrow> string \<Rightarrow> int \<Rightarrow> server \<times> emits" where
  "disconnect s sock now =
     (case map_of (players_gs s) sock of
        None \<Rightarrow> (s, [])
      | Some (playerData, roomId) \<Rightarrow>
          let (s1, out) =
            (case rooms_get s roomId of
               None \<Rightarrow> (s, [])
             | Some a \<Rightarrow>
                 let r = the_room s a in
                 (case find_player_index sock (players r) of
                    None \<Rightarrow> (s, [])
                  | Some i \<Rightarrow>
                      let p = (players r ! i)\<lparr>connected := False\<rparr>;
                          r1 = r\<lparr>players := (players r)[i := p]\<rparr>;
                          out1 = [(ToOthers sock roomId, PlayerDisconnected p)]
                      in
                      if gameStarted r1 \<and> \<not> paused r1 then
                        (set_room a (r1\<lparr>paused := True, pausedBy := Some sock,
                                         pausedAt := Some now\<rparr>) s,
                         out1 @ [(ToRoom roomId,
                                   GamePaused sock None (Some ''Player disconnected''))])
                      else (set_room a r1 s, out1)))
          in (s1\<lparr>players_gs := AList.delete sock (players_gs s1)\<rparr>, out))"

section \<open>The server as a transition system\<close>

text \<open>
  The events the server reacts to: the socket events, each with the sending socket's id
  first, and \<open>Timeout\<close>, the firing of the oldest pending resolution callback (all
  callbacks have the same delay, so they fire in the order they were scheduled). The
  values of \<open>Date.now()\<close> and the draws of \<open>Math.random()\<close> come with the event. The
  model lets a callback fire at any later point instead of after exactly 1.5 seconds.
\<close>

datatype event =
    JoinRoom string string string
  | StartGame string string int "nat \<Rightarrow> nat"
  | FlipCard string string nat
  | PauseGame string string int
  | ResumeGame string string int
  | LeaveRoom string string
  | Disconnect string int
  | Timeout int

text \<open>One event. \<open>None\<close>: an uncaught exception ends the process.\<close>

fun step :: "server \<Rightarrow> event \<Rightarrow> (server \<times> emits) option" where
  "step s (JoinRoom sock roomId playerName) = Some (join_room s sock roomId playerName)"
| "step s (StartGame sock roomId now rnd) = Some (start_game s sock roomId now rnd)"
| "step s (FlipCard sock roomId cardId) = Some (flip_card s sock roomId cardId)"
| "step s (PauseGame sock roomId now) = Some (pause_game s sock roomId now)"
| "step s (ResumeGame sock roomId now) = Some (resume_game s sock roomId now)"
| "step s (LeaveRoom sock roomId) = Some (leave_room s sock roomId)"
| "step s (Disconnect sock now) = Some (disconnect s sock now)"
| "step s (Timeout now) =
     (case timers s of
        [] \<Rightarrow> Some (s, [])
      | t # ts \<Rightarrow> resolution (s\<lparr>timers := ts\<rparr>) t now)"

text \<open>A run of the server from a state: the final state and everything emitted.\<close>

fun run :: "server \<Rightarrow> event list \<Rightarrow> (server \<times> emits) option" where
  "run s [] = Some (s, [])"
| "run s (e # es) =
     (case step s e of
        None \<Rightarrow> None
      | Some (s1, out1) \<Rightarrow>
          (case run s1 es of
             None \<Rightarrow> None
           | Some (s2, out2) \<Rightarrow> Some (s2, out1 @ out2)))"

section \<open>Well-formed states\<close>

text \<open>
  The properties every reachable state has: in each room object, every player of the room
  has an entry in \<open>scores\<close>, and the card references of the board and of
  \<open>flippedCards\<close> point into the card store; every reference held by the room map or by
  a pending callback points into the stores.
\<close>

definition scores_cover :: "room \<Rightarrow> bool" where
  "scores_cover r = (player_id ` set (players r) \<subseteq> set (Object_keys (scores r)))"

definition room_ok :: "server \<Rightarrow> room \<Rightarrow> bool" where
  "room_ok s r =
     ((\<forall>c \<in> set (gameBoard r). c < length (card_heap s)) \<and>
      (\<forall>c \<in> set (flippedCards r). c < length (card_heap s)) \<and> scores_cover r)"

definition timer_ok :: "server \<Rightarrow> timer \<Rightarrow> bool" where
  "timer_ok s t =
     (t_room t < length (room_heap s) \<and> t_card1 t < length (card_heap s) \<and>
      t_card2 t < length (card_heap s))"

definition well_formed :: "server \<Rightarrow> bool" where
  "well_formed s =
     ((\<forall>a \<in> snd ` set (rooms s). a < length (room_heap s)) \<and>
      (\<forall>t \<in> set (timers s). timer_ok s t) \<and>
      (\<forall>r \<in> set (room_heap s). room_ok s r))"

section \<open>Scenarios\<close>

text \<open>
  Concrete states and runs used to evaluate the model. Two players, Ann on socket \<open>A\<close>
  and Bob on socket \<open>B\<close>, join the room \<open>r\<close>; Ann starts the game, and the shuffle
  draws \<open>rnd = id\<close>, which leaves the pairs in the order they were created: the cards
  \<open>2i\<close> and \<open>2i + 1\<close> carry the same symbol.
\<close>

definition ann :: player where
  "ann = \<lparr>player_id = ''A'', name = ''Ann'', connected = True\<rparr>"

definition bob :: player where
  "bob = \<lparr>player_id = ''B'', name = ''Bob'', connected = True\<rparr>"

definition identity_board :: "card list" where
  "identity_board = concat (map (pair_cards emojis) [0..<8])"

definition join_events :: "event list" where
  "join_events = [JoinRoom ''A'' ''r'' ''Ann'', JoinRoom ''B'' ''r'' ''Bob'']"

definition start_events :: "event list" where
  "start_events = join_events @ [StartGame ''A'' ''r'' 1000 id]"

text \<open>The state after \<open>join_events\<close>.\<close>

definition lobby :: server where
  "lobby =
     \<lparr>rooms = [(''r'', 0)],
      players_gs = [(''A'', ann, ''r''), (''B'', bob, ''r'')],
      room_heap = [(new_room ''r'' empty_arg)\<lparr>players := [ann, bob],
                     scores := [(''A'', Num 0), (''B'', Num 0)]\<rparr>],
      card_heap = [], timers = []\<rparr>"

text \<open>The state after \<open>start_events\<close>.\<close>

definition playing :: server where
  "playing =
     lobby\<lparr>room_heap := [(the_room lobby 0)\<lparr>gameBoard := [0..<16], gameStarted := True,
                              startTime := Some 1000\<rparr>],
           card_heap := identity_board\<rparr>"

text \<open>Bob has paused the game.\<close>

definition paused_game :: server where
  "paused_game = fst (pause_game playing ''B'' ''r'' 5000)"

text \<open>Ann has flipped the cards 0 and 2, which do not match; their resolution is pending.\<close>

definition pending_mismatch :: server where
  "pending_mismatch = fst (flip_card (fst (flip_card playing ''A'' ''r'' 0)) ''A'' ''r'' 2)"

text \<open>A room without players, as \<open>createRoom\<close> leaves it.\<close>

definition empty_room :: server where
  "empty_room = createRoom init ''r'' empty_arg"

text \<open>The state a run from the initial state ends in, and what it emitted.\<close>

definition final :: "event list \<Rightarrow> server" where
  "final es = fst (the (run init es))"

definition emitted :: "event list \<Rightarrow> emits" where
  "emitted es = snd (the (run init es))"

text \<open>Ann flips a third card while the cards 0 and 2 are pending.\<close>

definition three_flipped :: "event list" where
  "three_flipped = start_events @
     [FlipCard ''A'' ''r'' 0, FlipCard ''A'' ''r'' 2, FlipCard ''A'' ''r'' 4]"

text \<open>Ann leaves the lobby.\<close>

definition left_events :: "event list" where
  "left_events = join_events @ [LeaveRoom ''A'' ''r'']"

text \<open>Ann flips the cards \<open>i\<close> and \<open>i + 1\<close>, and the pair is resolved.\<close>

definition play_pair :: "nat \<Rightarrow> event list" where
  "play_pair i = [FlipCard ''A'' ''r'' i, FlipCard ''A'' ''r'' (i + 1), Timeout 2000]"

text \<open>
  Ann finds all eight pairs in a row, and leaves the room after her last flip, before
  the last pair is resolved.
\<close>

definition full_game :: "event list" where
  "full_game = start_events @ play_pair 0 @ play_pair 2 @ play_pair 4 @ play_pair 6 @
     play_pair 8 @ play_pair 10 @ play_pair 12 @
     [FlipCard ''A'' ''r'' 14, FlipCard ''A'' ''r'' 15, LeaveRoom ''A'' ''r'', Timeout 4000]"

text \<open>The cards of a room's board that are flipped and not matched.\<close>

definition unresolved :: "server \<Rightarrow> nat \<Rightarrow> nat list" where
  "unresolved s a =
     filter (\<lambda>c. flipped (the_card s c) \<and> \<not> matched (the_card s c)) (gameBoard (the_room s a))"





section \<open>Paused rooms\<close>



text \<open>The room object \<open>a\<close> is a started and paused game.\<close>

definition held :: "server \<Rightarrow> nat \<Rightarrow> bool" where
  "held s a = (a < length (room_heap s) \<and> gameStarted (the_room s a) \<and> paused (the_room s a))"


section \<open>Evaluation of the model on concrete inputs\<close>

text \<open>
  Rewrite rules that let the simplifier run the loops on numerals, and the draws
  \<open>rnd = id\<close>, under which every swap of the shuffle exchanges a card with itself.
\<close>

lemma push_pairs_numeral:
  "push_pairs sel i (numeral k) cards =
     push_pairs sel (Suc i) (pred_numeral k) (cards @ pair_cards sel i)"
  by (simp add: numeral_eq_Suc)

lemma swap_same: "swap i i cards = cards"
  by (simp add: swap_def)

lemma fisher_yates_id: "fisher_yates id k cards = cards"
  by (induction k arbitrary: cards) (simp_all add: swap_same)

lemma list_update_Cons_numeral: "(x # xs)[numeral k := y] = x # xs[pred_numeral k := y]"
  by (simp add: numeral_eq_Suc)

lemmas model_defs = join_room_def start_game_def flip_card_def pause_game_def resume_game_def
  leave_room_def disconnect_def resolution_def end_resolution_def winner_of_def top_scorer_def
  js_incr_def js_get_def Object_keys_def js_time_def find_player_def find_card_def
  find_player_index_def splice1_def createRoom_def addPlayerToRoom_def new_room_def
  merge_config_def empty_arg_def defaultConfig_def rooms_get_def the_room_def the_card_def
  set_room_def set_card_def init_def sanitize_roomId_def sanitize_playerName_def
  roomId_char_def trim_def js_whitespace_def generateGameBoard_def theme_symbols_def
  themes_def emojis_def animals_def pair_cards_def js_index_def Let_def
  push_pairs_numeral fisher_yates_id list_update_Cons_numeral

lemma upt_0_8: "[0..<8] = [0, 1, 2, 3, 4, 5, 6, 7]"
  by (simp add: upt_rec)

lemma upt_0_16: "[0..<16] = [0, 1, 2, 3, 4, 5, 6, 7, 8, 9, 10, 11, 12, 13, 14, 15]"
  by (simp add: upt_rec)

lemmas scenario_defs = upt_0_8 upt_0_16 ann_def bob_def identity_board_def lobby_def playing_def
  join_events_def start_events_def

text \<open>The scenario states are the states their runs end in.\<close>

lemma run_lobby: "map_option fst (run init join_events) = Some lobby"
  by (simp add: scenario_defs model_defs)

lemma run_playing: "map_option fst (run init start_events) = Some playing"
  by (simp add: scenario_defs model_defs)

lemma run_append:
  "run s (es @ fs) =
     (case run s es of
        None \<Rightarrow> None
      | Some (s1, out1) \<Rightarrow>
          (case run s1 fs of None \<Rightarrow> None | Some (s2, out2) \<Rightarrow> Some (s2, out1 @ out2)))"
  by (induction es arbitrary: s) (auto split: option.splits)

section \<open>The board generator\<close>

lemma push_pairs_concat:
  "push_pairs sel i k cards = cards @ concat (map (pair_cards sel) [i..<i + k])"
proof (induction k arbitrary: i cards)
  case 0
  then show ?case by simp
next
  case (Suc k)
  have "[i..<i + Suc k] = i # [Suc i..<Suc i + k]"
    by (simp add: upt_rec)
  then show ?case using Suc.IH [of "Suc i" "cards @ pair_cards sel i"] by simp
qed


lemma symbols_push_pairs:
  assumes "k \<le> length sel"
  shows "map symbol (push_pairs sel 0 k []) = concat (map (\<lambda>x. [Some x, Some x]) (take k sel))"
proof -
  have "map symbol (push_pairs sel 0 k []) = concat (map (\<lambda>i. [js_index sel i, js_index sel i]) [0..<k])"
    by (simp add: push_pairs_concat map_concat comp_def pair_cards_def)
  also have "map (\<lambda>i. [js_index sel i, js_index sel i]) [0..<k] = map (\<lambda>x. [Some x, Some x]) (map (\<lambda>i. sel ! i) [0..<k])"
    using assms by (simp add: js_index_def)
  also have "map (\<lambda>i. sel ! i) [0..<k] = take k sel"
    using assms by (simp add: list_eq_iff_nth_eq)
  finally show ?thesis .
qed




lemma count_pairs:
  "count (mset (concat (map (\<lambda>x. [Some x, Some x]) xs))) (Some y) = 2 * count (mset xs) y"
  by (induction xs) simp_all










section \<open>Reachable states are well formed\<close>

lemma rooms_get_valid: "well_formed s \<Longrightarrow> rooms_get s roomId = Some a \<Longrightarrow> a < length (room_heap s)"
  unfolding well_formed_def rooms_get_def by (metis (no_types, opaque_lifting) image_eqI map_of_SomeD snd_conv)

lemma the_room_ok: "well_formed s \<Longrightarrow> a < length (room_heap s) \<Longrightarrow> room_ok s (the_room s a)"
  by (simp add: well_formed_def the_room_def)

lemma keys_update: "set (Object_keys (AList.update k v xs)) = insert k (set (Object_keys xs))"
  by (induction xs) (auto simp: Object_keys_def)

lemma set_update_rooms:
  assumes "\<forall>r \<in> set h. P r" "P r'"
  shows "\<forall>r \<in> set (h[a := r']). P r"
  using assms by (metis insert_iff set_update_subset_insert subsetD)

lemma wf_set_room:
  assumes "well_formed s" "room_ok s r"
  shows "well_formed (set_room a r s)"
  using assms set_update_rooms [of "room_heap s" "room_ok s" r a]
  by (simp add: well_formed_def set_room_def timer_ok_def room_ok_def)

lemma wf_set_card:
  assumes "well_formed s"
  shows "well_formed (set_card c v s)"
  using assms by (simp add: well_formed_def set_card_def timer_ok_def room_ok_def)

lemma room_ok_set_card [simp]: "room_ok (set_card c v s) r = room_ok s r"
  by (simp add: room_ok_def set_card_def)

lemma the_room_set_card [simp]: "the_room (set_card c v s) a = the_room s a"
  by (simp add: the_room_def set_card_def)

lemma room_heap_set_card [simp]: "room_heap (set_card c v s) = room_heap s"
  by (simp add: set_card_def)

lemma wf_players_gs [simp]: "well_formed (s\<lparr>players_gs := x\<rparr>) = well_formed s"
  by (simp add: well_formed_def timer_ok_def room_ok_def)

lemma set_alist_update: "set (AList.update k v al) \<subseteq> insert (k, v) (set al)"
  by (induction al) auto

lemma set_alist_delete: "set (AList.delete k al) \<subseteq> set al"
  by (auto simp: AList.delete_eq)

lemma wf_rooms_delete: "well_formed s \<Longrightarrow> well_formed (s\<lparr>rooms := AList.delete k (rooms s)\<rparr>)"
  using set_alist_delete [of k "rooms s"] by (auto simp: well_formed_def timer_ok_def room_ok_def)

lemma wf_createRoom: "well_formed s \<Longrightarrow> well_formed (createRoom s roomId g)"
  using set_alist_update [of roomId "length (room_heap s)" "rooms s"]
  by (auto simp: well_formed_def createRoom_def timer_ok_def room_ok_def new_room_def scores_cover_def
      less_Suc_eq)

lemma wf_addPlayerToRoom:
  assumes "well_formed s" "addPlayerToRoom s roomId p = (s', b)"
  shows "well_formed s'"
proof (cases "rooms_get s roomId")
  case None
  then show ?thesis using assms by (simp add: addPlayerToRoom_def)
next
  case (Some a)
  have ok: "room_ok s (the_room s a)"
    using assms(1) Some by (simp add: rooms_get_valid the_room_ok)
  have "room_ok s ((the_room s a)\<lparr>players := players (the_room s a) @ [p],
          scores := AList.update (player_id p) (Num 0) (scores (the_room s a))\<rparr>)"
    using ok by (auto simp: room_ok_def scores_cover_def keys_update)
  then show ?thesis using assms Some
    by (auto simp: addPlayerToRoom_def Let_def wf_set_room split: if_splits)
qed

lemma wf_join_room:
  assumes "well_formed s" "join_room s sock roomId playerName = (s', out)"
  shows "well_formed s'"
  using assms
  by (auto simp: join_room_def Let_def split: if_splits prod.splits option.splits
      dest: wf_addPlayerToRoom [rotated] intro: wf_createRoom)

lemma wf_card_heap_append: "well_formed s \<Longrightarrow> well_formed (s\<lparr>card_heap := card_heap s @ cs\<rparr>)"
  by (fastforce simp: well_formed_def timer_ok_def room_ok_def intro: trans_less_add1)

lemma wf_start_game:
  assumes "well_formed s" "start_game s sock roomId now rnd = (s', out)"
  shows "well_formed s'"
proof (cases "rooms_get s roomId")
  case None
  then show ?thesis using assms by (simp add: start_game_def)
next
  case (Some a)
  have ok: "room_ok s (the_room s a)"
    using assms(1) Some by (simp add: rooms_get_valid the_room_ok)
  have r: "room_ok (s\<lparr>card_heap := card_heap s @ cards\<rparr>)
          ((the_room s a)\<lparr>gameBoard := [length (card_heap s) ..< length (card_heap s) + length cards],
                 gameStarted := True, startTime := Some now, currentPlayer := Num 0, moves := 0\<rparr>)"
    for cards
    using ok by (auto simp: room_ok_def scores_cover_def)
  show ?thesis using assms Some r
    by (auto simp: start_game_def Let_def wf_set_room wf_card_heap_append
        split: option.splits)
qed

lemma find_in_set: "find P xs = Some x \<Longrightarrow> x \<in> set xs"
  by (induction xs) (auto split: if_splits)

lemma wf_timers:
  "well_formed s \<Longrightarrow> \<forall>t \<in> set ts. timer_ok s t \<Longrightarrow> well_formed (s\<lparr>timers := ts\<rparr>)"
  by (auto simp: well_formed_def timer_ok_def room_ok_def)

lemma wf_timer_ok: "well_formed s \<Longrightarrow> t \<in> set (timers s) \<Longrightarrow> timer_ok s t"
  by (simp add: well_formed_def)

lemma timers_set_card [simp]: "timers (set_card c v s) = timers s"
  by (simp add: set_card_def)

lemma timer_ok_set_room [simp]: "timer_ok (set_room a r s) t = timer_ok s t"
  by (simp add: timer_ok_def set_room_def)

lemma timer_ok_set_card [simp]: "timer_ok (set_card c v s) t = timer_ok s t"
  by (simp add: timer_ok_def set_card_def)

lemma timers_set_room [simp]: "timers (set_room a r s) = timers s"
  by (simp add: set_room_def)

lemma wf_flip_card:
  assumes "well_formed s" "flip_card s sock roomId cardId = (s', out)"
  shows "well_formed s'"
proof (cases "rooms_get s roomId")
  case None
  then show ?thesis using assms by (simp add: flip_card_def)
next
  case (Some a)
  define r where "r = the_room s a"
  have a: "a < length (room_heap s)" using assms(1) Some by (rule rooms_get_valid)
  have ok: "room_ok s r"
    using assms(1) a by (simp add: r_def the_room_ok)
  have step: "well_formed (set_room a (r\<lparr>flippedCards := flippedCards r @ [c]\<rparr>) (set_card c v s)) \<and>
      (length (flippedCards r) = 1 \<longrightarrow>
        timer_ok s \<lparr>t_roomId = roomId, t_room = a, t_currentPlayer_id = pid,
           t_card1 = (flippedCards r @ [c]) ! 0, t_card2 = (flippedCards r @ [c]) ! 1\<rparr>)"
    if "find_card s cardId (gameBoard r) = Some c" for c v pid
  proof -
    have c: "c < length (card_heap s)"
      using that ok by (auto simp: find_card_def room_ok_def dest: find_in_set)
    have "room_ok s (r\<lparr>flippedCards := flippedCards r @ [c]\<rparr>)"
      using ok c by (auto simp: room_ok_def scores_cover_def)
    then have 1: "well_formed (set_room a (r\<lparr>flippedCards := flippedCards r @ [c]\<rparr>) (set_card c v s))"
      using assms(1) by (simp add: wf_set_room wf_set_card)
    have 2: "timer_ok s \<lparr>t_roomId = roomId, t_room = a, t_currentPlayer_id = pid,
           t_card1 = (flippedCards r @ [c]) ! 0, t_card2 = (flippedCards r @ [c]) ! 1\<rparr>"
      if l: "length (flippedCards r) = 1"
    proof -
      obtain d where d: "flippedCards r = [d]" using l by (cases "flippedCards r") auto
      then have "d < length (card_heap s)" using ok by (simp add: room_ok_def)
      then show ?thesis using a c d by (simp add: timer_ok_def)
    qed
    show ?thesis using 1 2 by blast
  qed
  show ?thesis using assms Some step
    by (auto simp: flip_card_def Let_def r_def [symmetric] wf_timer_ok
        split: option.splits if_splits intro!: wf_timers)
qed

lemma keys_js_incr: "set (Object_keys sc) \<subseteq> set (Object_keys (js_incr sc k))"
  by (auto simp: js_incr_def keys_update)

lemma wf_end_resolution:
  assumes "well_formed s" "a < length (room_heap s)"
  shows "well_formed (end_resolution a s)"
proof -
  have "room_ok s (the_room s a)" using assms by (rule the_room_ok)
  then have "room_ok s ((the_room s a)\<lparr>flippedCards := [], moves := moves (the_room s a) + 1\<rparr>)"
    by (simp add: room_ok_def scores_cover_def)
  then show ?thesis using assms(1) by (simp add: end_resolution_def wf_set_room)
qed

lemma length_set_room [simp]: "length (room_heap (set_room a r s)) = length (room_heap s)"
  by (simp add: set_room_def)

lemma wf_resolution:
  assumes "well_formed s" "timer_ok s t" "resolution s t now = Some (s', out)"
  shows "well_formed s'"
proof -
  define a where "a = t_room t"
  have a: "a < length (room_heap s)" using assms(2) by (simp add: timer_ok_def a_def)
  have ok: "room_ok s (the_room s a)" using assms(1) a by (rule the_room_ok)
  have m: "well_formed (end_resolution a (set_room a
            ((the_room s a)\<lparr>scores := js_incr (scores (the_room s a)) k,
               matchedPairs := matchedPairs (the_room s a) + 1\<rparr>) (set_card c2 v2 (set_card c1 v1 s))))"
    for k c1 v1 c2 v2
  proof -
    have "room_ok s ((the_room s a)\<lparr>scores := js_incr (scores (the_room s a)) k,
               matchedPairs := matchedPairs (the_room s a) + 1\<rparr>)"
      using ok keys_js_incr [of "scores (the_room s a)" k]
      by (auto simp: room_ok_def scores_cover_def)
    then show ?thesis using assms(1) a
      by (intro wf_end_resolution wf_set_room wf_set_card) simp_all
  qed
  have n: "well_formed (end_resolution a (set_room a
            ((the_room s a)\<lparr>currentPlayer := x\<rparr>) (set_card c2 v2 (set_card c1 v1 s))))"
    for x c1 v1 c2 v2
  proof -
    have "room_ok s ((the_room s a)\<lparr>currentPlayer := x\<rparr>)"
      using ok by (auto simp: room_ok_def scores_cover_def)
    then show ?thesis using assms(1) a
      by (intro wf_end_resolution wf_set_room wf_set_card) simp_all
  qed
  show ?thesis using assms(3) m n
    by (auto simp: resolution_def Let_def a_def [symmetric] split: if_splits option.splits)
qed

lemma wf_update_room:
  assumes "well_formed s" "rooms_get s roomId = Some a"
    and "gameBoard r' = gameBoard (the_room s a)"
    and "flippedCards r' = flippedCards (the_room s a)"
    and "player_id ` set (players r') \<subseteq> player_id ` set (players (the_room s a))"
    and "scores r' = scores (the_room s a)"
  shows "well_formed (set_room a r' s)"
proof -
  have "room_ok s (the_room s a)"
    using assms(1,2) by (simp add: rooms_get_valid the_room_ok)
  then have "room_ok s r'"
    using assms(3-6) unfolding room_ok_def scores_cover_def
    by (metis (no_types, lifting) subset_trans)
  then show ?thesis using assms(1) by (rule wf_set_room [rotated])
qed

lemma wf_pause_game:
  assumes "well_formed s" "pause_game s sock roomId now = (s', out)"
  shows "well_formed s'"
  using assms
  by (auto simp: pause_game_def Let_def split: option.splits if_splits intro!: wf_update_room)

lemma wf_resume_game:
  assumes "well_formed s" "resume_game s sock roomId now = (s', out)"
  shows "well_formed s'"
  using assms
  by (auto simp: resume_game_def Let_def split: option.splits if_splits intro!: wf_update_room)

lemma set_splice1: "set (splice1 i xs) \<subseteq> set xs"
  by (auto simp: splice1_def dest: in_set_takeD in_set_dropD)

lemma findIndex_less: "findIndex P xs = Some i \<Longrightarrow> i < length xs"
  by (induction xs arbitrary: i) (auto split: if_splits)

lemma wf_leave_room:
  assumes "well_formed s" "leave_room s sock roomId = (s', out)"
  shows "well_formed s'"
proof (cases "rooms_get s roomId")
  case None
  then show ?thesis using assms by (auto simp: leave_room_def)
next
  case (Some a)
  have w: "well_formed (set_room a ((the_room s a)\<lparr>players := splice1 i (players (the_room s a))\<rparr>) s)"
    for i
    using assms(1) Some set_splice1 [of i "players (the_room s a)"]
    by (intro wf_update_room) auto
  show ?thesis
  proof (cases "find_player_index sock (players (the_room s a))")
    case None
    then show ?thesis using assms Some by (auto simp: leave_room_def Let_def)
  next
    case (Some i)
    show ?thesis using assms \<open>rooms_get s roomId = Some a\<close> Some w [of i] wf_rooms_delete [OF w [of i] ]
      by (auto simp: leave_room_def Let_def split: if_splits)
  qed
qed

lemma player_ids_update:
  assumes "i < length ps"
  shows "player_id ` set (ps[i := (ps ! i)\<lparr>connected := c\<rparr>]) = player_id ` set ps"
proof -
  have "map player_id (ps[i := (ps ! i)\<lparr>connected := c\<rparr>]) = map player_id ps"
    using assms by (simp add: list_eq_iff_nth_eq nth_list_update)
  then show ?thesis by (metis set_map)
qed

lemma wf_disconnect:
  assumes "well_formed s" "disconnect s sock now = (s', out)"
  shows "well_formed s'"
proof (cases "map_of (players_gs s) sock")
  case None
  then show ?thesis using assms by (simp add: disconnect_def)
next
  case (Some e)
  obtain pd roomId where e: "e = (pd, roomId)" by (cases e)
  show ?thesis
  proof (cases "rooms_get s roomId")
    case None
    then show ?thesis using assms Some e by (auto simp: disconnect_def)
  next
    case a: (Some a)
    define r where "r = the_room s a"
    show ?thesis
    proof (cases "find_player_index sock (players r)")
      case None
      then show ?thesis using assms Some e a by (auto simp: disconnect_def Let_def r_def)
    next
      case i: (Some i)
      have il: "i < length (players r)"
        using i by (simp add: find_player_index_def findIndex_less)
      define r1 where "r1 = r\<lparr>players := (players r)[i := (players r ! i)\<lparr>connected := False\<rparr>]\<rparr>"
      have 1: "well_formed (set_room a r1 s)"
        using assms(1) a il unfolding r1_def r_def
        by (intro wf_update_room) (auto simp: player_ids_update)
      have 2: "well_formed (set_room a (r1\<lparr>paused := True, pausedBy := Some sock, pausedAt := Some now\<rparr>) s)"
        using assms(1) a il unfolding r1_def r_def
        by (intro wf_update_room) (auto simp: player_ids_update)
      show ?thesis using assms(2) Some e a i 1 2
        by (auto simp: disconnect_def Let_def r_def [symmetric] r1_def [symmetric]
            split: if_splits)
    qed
  qed
qed

lemma wf_step:
  assumes "well_formed s" "step s e = Some (s', out)"
  shows "well_formed s'"
proof (cases e)
  case (Timeout now)
  show ?thesis
  proof (cases "timers s")
    case Nil
    then show ?thesis using assms Timeout by simp
  next
    case (Cons t ts)
    have "well_formed (s\<lparr>timers := ts\<rparr>)"
      using assms(1) Cons by (intro wf_timers) (auto simp: wf_timer_ok)
    moreover have "timer_ok (s\<lparr>timers := ts\<rparr>) t"
      using wf_timer_ok [OF assms(1), of t] Cons by (simp add: timer_ok_def)
    ultimately show ?thesis using assms(2) Timeout Cons
      by (auto dest: wf_resolution)
  qed
qed (use assms in \<open>auto dest: wf_join_room wf_start_game wf_flip_card wf_pause_game
      wf_resume_game wf_leave_room wf_disconnect\<close>)

lemma wf_run:
  assumes "well_formed s" "run s es = Some (s', out)"
  shows "well_formed s'"
  using assms
proof (induction es arbitrary: s out)
  case Nil
  then show ?case by simp
next
  case (Cons e es)
  then show ?case
    by (auto split: option.splits prod.splits dest: wf_step)
qed

lemma wf_init: "well_formed init"
  by (simp add: well_formed_def init_def)

section \<open>The room registry\<close>

text \<open>
  Claim C6, as the code has it. \<open>createRoom\<close> always allocates a new room and binds the
  id to it, whether or not the id was bound before: the new room has no players, no
  board and no scores, and its configuration is the default one (grid size 4, theme
  \<open>emojis\<close>, 2 players, no time limit) with every key of the supplied configuration
  overriding the default; the other room objects and the other ids are untouched. An
  existing room is kept not by \<open>createRoom\<close> but by its caller: the join-room handler
  calls \<open>createRoom\<close> only for an id that is absent, so joining an existing room leaves
  the room map as it is and allocates no room.
\<close>

theorem createRoom_fresh:
  "rooms_get (createRoom s roomId g) roomId = Some (length (room_heap s)) \<and>
   the_room (createRoom s roomId g) (length (room_heap s)) =
     \<lparr>room_id = roomId,
      config = \<lparr>gridSize = (case arg_gridSize g of None \<Rightarrow> 4 | Some v \<Rightarrow> v),
                theme = (case arg_theme g of None \<Rightarrow> ''emojis'' | Some v \<Rightarrow> v),
                maxPlayers = (case arg_maxPlayers g of None \<Rightarrow> 2 | Some v \<Rightarrow> v),
                timeLimit = (case arg_timeLimit g of None \<Rightarrow> None | Some v \<Rightarrow> v)\<rparr>,
      players = [], gameBoard = [], currentPlayer = Num 0, gameStarted = False, paused = False,
      pausedBy = None, pausedAt = None, scores = [], moves = 0, startTime = None,
      flippedCards = [], matchedPairs = 0\<rparr> \<and>
   (\<forall>a. a < length (room_heap s) \<longrightarrow> the_room (createRoom s roomId g) a = the_room s a) \<and>
   (\<forall>other. other \<noteq> roomId \<longrightarrow> rooms_get (createRoom s roomId g) other = rooms_get s other) \<and>
   (\<forall>sock rawId playerName a. rooms_get s (sanitize_roomId rawId) = Some a \<longrightarrow>
      rooms (fst (join_room s sock rawId playerName)) = rooms s \<and>
      length (room_heap (fst (join_room s sock rawId playerName))) = length (room_heap s))"
  by (auto simp: createRoom_def rooms_get_def the_room_def new_room_def merge_config_def
      defaultConfig_def update_conv' nth_append join_room_def addPlayerToRoom_def set_room_def
      Let_def split: option.splits if_splits)

text \<open>
  In the lobby of room \<open>r\<close>: joining \<open>r\<close> again creates no room, and creating the room
  \<open>q\<close> leaves \<open>r\<close> and its room object alone.
\<close>

theorem createRoom_fresh_witness:
  "rooms_get lobby ''r'' = Some 0 \<and> sanitize_roomId ''r!'' = ''r'' \<and>
   rooms (fst (join_room lobby ''C'' ''r!'' ''Cy'')) = rooms lobby \<and>
   length (room_heap (fst (join_room lobby ''C'' ''r!'' ''Cy''))) = 1 \<and>
   rooms_get (createRoom lobby ''q'' empty_arg) ''r'' = Some 0 \<and>
   the_room (createRoom lobby ''q'' empty_arg) 0 = the_room lobby 0"
proof -
  have 1: "rooms_get lobby ''r'' = Some 0" and 2: "sanitize_roomId ''r!'' = ''r''"
    and 3: "length (room_heap lobby) = 1" and 4: "''r'' \<noteq> ''q''"
    by (simp_all add: scenario_defs model_defs)
  from createRoom_fresh [of lobby "''q''" empty_arg] 1 2 3 4 show ?thesis
    by simp
qed

text \<open>
  Claim C6 as stated fails: \<open>createRoom\<close> on the id \<open>r\<close> of the lobby, where Ann and
  Bob are, is not a no-op. The id is bound to a new room object, which has no players.
\<close>

theorem createRoom_overwrites_counterexample:
  "rooms_get lobby ''r'' = Some 0 \<and> players (the_room lobby 0) = [ann, bob] \<and>
   rooms_get (createRoom lobby ''r'' empty_arg) ''r'' = Some 1 \<and>
   players (the_room (createRoom lobby ''r'' empty_arg) 1) = []"
  by (simp add: scenario_defs model_defs)

text \<open>
  Claim C4, as the code has it. In every reachable state, every id bound in the room map
  refers to a room object in which each player of \<open>players\<close> has an entry in \<open>scores\<close>.
  \<open>addPlayerToRoom\<close> keeps the two sets of ids equal when they were. The leave-room
  handler removes the player from \<open>players\<close> and leaves \<open>scores\<close> as it is, so the entry of
  a player who left stays.
\<close>

theorem scores_cover_players:
  "(run init es = Some (s, out) \<and> rooms_get s roomId = Some a \<longrightarrow>
      a < length (room_heap s) \<and>
      player_id ` set (players (the_room s a)) \<subseteq> set (Object_keys (scores (the_room s a)))) \<and>
   (rooms_get s0 rid = Some a0 \<and> a0 < length (room_heap s0) \<and>
    addPlayerToRoom s0 rid p = (s1, True) \<and>
    player_id ` set (players (the_room s0 a0)) = set (Object_keys (scores (the_room s0 a0))) \<longrightarrow>
      player_id ` set (players (the_room s1 a0)) = set (Object_keys (scores (the_room s1 a0)))) \<and>
   (rooms_get s0 rid = Some a0 \<and> a0 < length (room_heap s0) \<and>
    find_player_index sock (players (the_room s0 a0)) = Some i \<longrightarrow>
      players (the_room (fst (leave_room s0 sock rid)) a0) = splice1 i (players (the_room s0 a0)) \<and>
      scores (the_room (fst (leave_room s0 sock rid)) a0) = scores (the_room s0 a0))"
proof (intro conjI impI)
  assume h: "run init es = Some (s, out) \<and> rooms_get s roomId = Some a"
  then have w: "well_formed s" using wf_run [OF wf_init] by blast
  with h show a: "a < length (room_heap s)" by (auto intro: rooms_get_valid)
  from w a have "room_ok s (the_room s a)" by (rule the_room_ok)
  then show "player_id ` set (players (the_room s a)) \<subseteq> set (Object_keys (scores (the_room s a)))"
    by (simp add: room_ok_def scores_cover_def)
next
  assume "rooms_get s0 rid = Some a0 \<and> a0 < length (room_heap s0) \<and>
    addPlayerToRoom s0 rid p = (s1, True) \<and>
    player_id ` set (players (the_room s0 a0)) = set (Object_keys (scores (the_room s0 a0)))"
  then have h: "rooms_get s0 rid = Some a0" "a0 < length (room_heap s0)"
    "addPlayerToRoom s0 rid p = (s1, True)"
    and e: "player_id ` set (players (the_room s0 a0)) = set (Object_keys (scores (the_room s0 a0)))"
    by blast+
  have "the_room s1 a0 = (the_room s0 a0)\<lparr>players := players (the_room s0 a0) @ [p],
      scores := AList.update (player_id p) (Num 0) (scores (the_room s0 a0))\<rparr>"
    using h by (auto simp: addPlayerToRoom_def Let_def the_room_def set_room_def split: if_splits)
  then show "player_id ` set (players (the_room s1 a0)) = set (Object_keys (scores (the_room s1 a0)))"
    using e by (simp add: keys_update)
next
  assume h: "rooms_get s0 rid = Some a0 \<and> a0 < length (room_heap s0) \<and>
    find_player_index sock (players (the_room s0 a0)) = Some i"
  then show "players (the_room (fst (leave_room s0 sock rid)) a0) = splice1 i (players (the_room s0 a0))"
    by (auto simp: leave_room_def Let_def the_room_def set_room_def)
  from h show "scores (the_room (fst (leave_room s0 sock rid)) a0) = scores (the_room s0 a0)"
    by (auto simp: leave_room_def Let_def the_room_def set_room_def)
qed

text \<open>
  The run in which Ann leaves the lobby; Ann joining the empty room; Ann leaving the
  lobby.
\<close>

theorem scores_cover_players_witness:
  "run init left_events = Some (final left_events, emitted left_events) \<and>
   rooms_get (final left_events) ''r'' = Some 0 \<and>
   player_id ` set (players (the_room (final left_events) 0))
     \<subseteq> set (Object_keys (scores (the_room (final left_events) 0))) \<and>
   rooms_get empty_room ''r'' = Some 0 \<and> 0 < length (room_heap empty_room) \<and>
   addPlayerToRoom empty_room ''r'' ann = (fst (addPlayerToRoom empty_room ''r'' ann), True) \<and>
   player_id ` set (players (the_room empty_room 0)) =
     set (Object_keys (scores (the_room empty_room 0))) \<and>
   player_id ` set (players (the_room (fst (addPlayerToRoom empty_room ''r'' ann)) 0)) =
     set (Object_keys (scores (the_room (fst (addPlayerToRoom empty_room ''r'' ann)) 0))) \<and>
   rooms_get lobby ''r'' = Some 0 \<and> 0 < length (room_heap lobby) \<and>
   find_player_index ''A'' (players (the_room lobby 0)) = Some 0 \<and>
   players (the_room (fst (leave_room lobby ''A'' ''r'')) 0) = splice1 0 (players (the_room lobby 0)) \<and>
   scores (the_room (fst (leave_room lobby ''A'' ''r'')) 0) = scores (the_room lobby 0)"
proof -
  have 1: "run init left_events = Some (final left_events, emitted left_events)"
    and 2: "rooms_get (final left_events) ''r'' = Some 0"
    by (simp_all add: final_def emitted_def left_events_def scenario_defs model_defs)
  have 3: "rooms_get empty_room ''r'' = Some 0" "0 < length (room_heap empty_room)"
    and 4: "addPlayerToRoom empty_room ''r'' ann = (fst (addPlayerToRoom empty_room ''r'' ann), True)"
    and 5: "player_id ` set (players (the_room empty_room 0)) =
      set (Object_keys (scores (the_room empty_room 0)))"
    by (simp_all add: empty_room_def scenario_defs model_defs)
  have 6: "rooms_get lobby ''r'' = Some 0" "0 < length (room_heap lobby)"
    and 7: "find_player_index ''A'' (players (the_room lobby 0)) = Some 0"
    by (simp_all add: scenario_defs model_defs)
  note t = scores_cover_players
  from t [of left_events "final left_events" "emitted left_events" "''r''" 0] 1 2
  have a: "player_id ` set (players (the_room (final left_events) 0))
     \<subseteq> set (Object_keys (scores (the_room (final left_events) 0)))" by blast
  from t [of _ _ _ _ _ empty_room "''r''" 0 ann "fst (addPlayerToRoom empty_room ''r'' ann)"] 3 4 5
  have b: "player_id ` set (players (the_room (fst (addPlayerToRoom empty_room ''r'' ann)) 0)) =
     set (Object_keys (scores (the_room (fst (addPlayerToRoom empty_room ''r'' ann)) 0)))" by blast
  from t [of _ _ _ _ _ lobby "''r''" 0 _ _ "''A''" 0] 6 7
  have c: "players (the_room (fst (leave_room lobby ''A'' ''r'')) 0) = splice1 0 (players (the_room lobby 0)) \<and>
   scores (the_room (fst (leave_room lobby ''A'' ''r'')) 0) = scores (the_room lobby 0)" by blast
  show ?thesis using 1 2 3 4 5 6 7 a b c by blast
qed

text \<open>
  Claim C4 as stated fails: after Ann left the lobby, the players of the room are Bob
  alone, and the scores still have the entries of Ann and Bob.
\<close>

theorem leave_room_keeps_score_counterexample:
  "map_option fst (run init join_events) = Some lobby \<and>
   map player_id (players (the_room lobby 0)) = [''A'', ''B''] \<and>
   Object_keys (scores (the_room lobby 0)) = [''A'', ''B''] \<and>
   rooms_get (fst (leave_room lobby ''A'' ''r'')) ''r'' = Some 0 \<and>
   map player_id (players (the_room (fst (leave_room lobby ''A'' ''r'')) 0)) = [''B''] \<and>
   Object_keys (scores (the_room (fst (leave_room lobby ''A'' ''r'')) 0)) = [''A'', ''B'']"
  by (simp add: scenario_defs model_defs)

section \<open>Starting a game\<close>

lemma the_room_set_room: "a < length (room_heap s) \<Longrightarrow> the_room (set_room a r s) a = r"
  by (simp add: the_room_def set_room_def)

text \<open>
  Claim C5, as the code has it. A start-game request is accepted, that is answered by
  the game-started broadcast to the room, exactly when the room exists, the requesting
  socket is a player of the room and the board can be generated; otherwise the state is
  unchanged and the requester gets one error. Whether the room is already started plays
  no part: an accepted request gives the room a board of fresh cards and sets
  \<open>gameStarted\<close>, \<open>startTime\<close>, \<open>currentPlayer = 0\<close> and \<open>moves = 0\<close>, also in a started
  room (the way a finished game is played again).
\<close>

theorem start_game_accepted_iff:
  "((\<exists>board cp sc. snd (start_game s sock roomId now rnd) = [(ToRoom roomId, GameStarted board cp sc)])
      \<longleftrightarrow>
    (\<exists>a. rooms_get s roomId = Some a \<and> find_player sock (players (the_room s a)) \<noteq> None \<and>
         generateGameBoard (config (the_room s a)) rnd \<noteq> None)) \<and>
   (\<not> (\<exists>a. rooms_get s roomId = Some a \<and> find_player sock (players (the_room s a)) \<noteq> None \<and>
         generateGameBoard (config (the_room s a)) rnd \<noteq> None)
      \<longrightarrow> fst (start_game s sock roomId now rnd) = s \<and>
          (\<exists>m. snd (start_game s sock roomId now rnd) = [(ToSocket sock, Error m)])) \<and>
   (\<forall>a cards. rooms_get s roomId = Some a \<and> a < length (room_heap s) \<and>
        find_player sock (players (the_room s a)) \<noteq> None \<and>
        generateGameBoard (config (the_room s a)) rnd = Some cards
      \<longrightarrow> the_room (fst (start_game s sock roomId now rnd)) a =
            (the_room s a)\<lparr>gameBoard := [length (card_heap s) ..< length (card_heap s) + length cards],
               gameStarted := True, startTime := Some now, currentPlayer := Num 0, moves := 0\<rparr> \<and>
          card_heap (fst (start_game s sock roomId now rnd)) = card_heap s @ cards)"
  by (auto simp: start_game_def Let_def the_room_def set_room_def split: option.splits)

text \<open>Ann starts the game a second time.\<close>

theorem start_game_accepted_iff_witness:
  "rooms_get playing ''r'' = Some 0 \<and> 0 < length (room_heap playing) \<and>
   find_player ''A'' (players (the_room playing 0)) = Some ann \<and>
   generateGameBoard (config (the_room playing 0)) id = Some identity_board \<and>
   gameStarted (the_room playing 0) \<and>
   gameBoard (the_room (fst (start_game playing ''A'' ''r'' 9000 id)) 0) = [16..<32] \<and>
   startTime (the_room (fst (start_game playing ''A'' ''r'' 9000 id)) 0) = Some 9000"
proof -
  have 1: "rooms_get playing ''r'' = Some 0" and 2: "0 < length (room_heap playing)"
    and 3: "find_player ''A'' (players (the_room playing 0)) = Some ann"
    and 4: "generateGameBoard (config (the_room playing 0)) id = Some identity_board"
    and 5: "gameStarted (the_room playing 0)"
    and 6: "length (card_heap playing) = 16" "length identity_board = 16"
    by (simp_all add: scenario_defs model_defs)
  from start_game_accepted_iff [of playing "''A''" "''r''" 9000 id] 1 2 3 4
  have "the_room (fst (start_game playing ''A'' ''r'' 9000 id)) 0 =
          (the_room playing 0)\<lparr>gameBoard := [length (card_heap playing) ..<
              length (card_heap playing) + length identity_board],
            gameStarted := True, startTime := Some 9000, currentPlayer := Num 0, moves := 0\<rparr>"
    by simp
  then show ?thesis using 1 2 3 4 5 6 by simp
qed

text \<open>
  Claim C5 as stated fails: in the started room of the scenario, a start-game request of
  Ann is not rejected. The room gets the game-started broadcast, and its board is
  replaced by sixteen new cards.
\<close>

theorem start_game_restart_counterexample:
  "map_option fst (run init start_events) = Some playing \<and>
   gameStarted (the_room playing 0) \<and>
   snd (start_game playing ''A'' ''r'' 9000 id) =
     [(ToRoom ''r'', GameStarted identity_board (Some ann) [(''A'', Num 0), (''B'', Num 0)])] \<and>
   gameBoard (the_room (fst (start_game playing ''A'' ''r'' 9000 id)) 0) =
     [16, 17, 18, 19, 20, 21, 22, 23, 24, 25, 26, 27, 28, 29, 30, 31]"
  by (simp add: scenario_defs model_defs)

section \<open>Flipping a card\<close>

text \<open>
  Claim C10. When a flip-card request fails a precondition (the room is absent, not
  started or paused; the current player is undefined or is not the requester; the card
  id is unknown, or the card is matched or flipped), the handler emits exactly one error,
  to the requester; and whenever it emits an error to the requester, the whole server
  state (cards, \<open>flippedCards\<close>, scores, \<open>currentPlayer\<close>, \<open>moves\<close>, \<open>matchedPairs\<close>,
  pending callbacks) is as before and no card-flipped broadcast is emitted.
\<close>

theorem flip_card_rejected_unchanged:
  assumes "flip_card s sock roomId cardId = (s', out)"
  shows "((rooms_get s roomId = None \<or>
           (\<exists>a. rooms_get s roomId = Some a \<and>
              (\<not> gameStarted (the_room s a) \<or> paused (the_room s a) \<or>
               (\<forall>cp. js_index_num (players (the_room s a)) (currentPlayer (the_room s a)) = Some cp
                   \<longrightarrow> player_id cp \<noteq> sock) \<or>
               (\<forall>c. find_card s cardId (gameBoard (the_room s a)) = Some c
                   \<longrightarrow> matched (the_card s c) \<or> flipped (the_card s c)))))
          \<longrightarrow> (\<exists>m. out = [(ToSocket sock, Error m)])) \<and>
         ((\<exists>m. (ToSocket sock, Error m) \<in> set out)
          \<longrightarrow> s' = s \<and> (\<forall>t i sy p. (t, CardFlipped i sy p) \<notin> set out))"
  using assms
  by (auto simp: flip_card_def Let_def split: option.splits if_splits)

text \<open>Bob asks for a card while it is Ann's turn.\<close>

theorem flip_card_rejected_unchanged_witness:
  "rooms_get playing ''r'' = Some 0 \<and>
   js_index_num (players (the_room playing 0)) (currentPlayer (the_room playing 0)) = Some ann \<and>
   player_id ann \<noteq> ''B'' \<and>
   snd (flip_card playing ''B'' ''r'' 0) = [(ToSocket ''B'', Error ''Not your turn'')] \<and>
   fst (flip_card playing ''B'' ''r'' 0) = playing"
proof -
  have r: "rooms_get playing ''r'' = Some 0"
    and t: "js_index_num (players (the_room playing 0)) (currentPlayer (the_room playing 0)) = Some ann"
    and n: "player_id ann \<noteq> ''B''"
    by (simp_all add: scenario_defs model_defs)
  have o: "snd (flip_card playing ''B'' ''r'' 0) = [(ToSocket ''B'', Error ''Not your turn'')]"
    by (simp add: scenario_defs model_defs)
  have "flip_card playing ''B'' ''r'' 0 =
          (fst (flip_card playing ''B'' ''r'' 0), snd (flip_card playing ''B'' ''r'' 0))"
    by simp
  from flip_card_rejected_unchanged [OF this] o
  have "fst (flip_card playing ''B'' ''r'' 0) = playing" by simp
  then show ?thesis using r t n o by simp
qed

text \<open>
  Claim C1 does not hold of the handler: it has no check of the length of
  \<open>flippedCards\<close>. With the cards 0 and 2 pending, Ann's flip of card 4 is accepted and
  broadcast; three cards of the room are then flipped and unmatched. The resolution
  flips 0 and 2 back and empties \<open>flippedCards\<close>, and card 4 stays flipped with no
  callback pending: a later request for it is an invalid selection.
\<close>

theorem third_flip_accepted:
  "map_option fst (run init (start_events @ [FlipCard ''A'' ''r'' 0, FlipCard ''A'' ''r'' 2])) =
     Some pending_mismatch \<and>
   flippedCards (the_room pending_mismatch 0) = [0, 2] \<and>
   snd (flip_card pending_mismatch ''A'' ''r'' 4) =
     [(ToRoom ''r'', CardFlipped 4 (Some [0x1f3a8]) ''A'')] \<and>
   run init three_flipped \<noteq> None \<and>
   flippedCards (the_room (final three_flipped) 0) = [0, 2, 4] \<and>
   unresolved (final three_flipped) 0 = [0, 2, 4] \<and>
   run init (three_flipped @ [Timeout 1500]) \<noteq> None \<and>
   flippedCards (the_room (final (three_flipped @ [Timeout 1500])) 0) = [] \<and>
   unresolved (final (three_flipped @ [Timeout 1500])) 0 = [4] \<and>
   timers (final (three_flipped @ [Timeout 1500])) = [] \<and>
   snd (flip_card (final (three_flipped @ [Timeout 1500])) ''B'' ''r'' 4) =
     [(ToSocket ''B'', Error ''Invalid card selection'')]"
  by (simp add: final_def three_flipped_def pending_mismatch_def unresolved_def
      scenario_defs model_defs)

section \<open>Resolving a pair\<close>

lemma js_incr_nonempty: "js_incr sc k \<noteq> []"
  by (cases sc) (auto simp: js_incr_def)

lemma top_scorer_defined: "sc \<noteq> [] \<Longrightarrow> top_scorer sc \<noteq> None"
  by (cases sc) (auto simp: top_scorer_def Object_keys_def)

lemma winner_of_defined: "scores r \<noteq> [] \<Longrightarrow> winner_of r \<noteq> None"
  using top_scorer_defined [of "scores r"] by (auto simp: winner_of_def split: option.splits)

lemma resolution_defined: "resolution s t now \<noteq> None"
proof -
  have "winner_of (r\<lparr>scores := js_incr (scores r) k, matchedPairs := m\<rparr>) \<noteq> None" for r k m
    by (rule winner_of_defined) (simp add: js_incr_nonempty)
  from this [where r = "the_room s (t_room t)" and k = "t_currentPlayer_id t"
      and m = "matchedPairs (the_room s (t_room t)) + 1"]
  show ?thesis
    by (auto simp: resolution_def Let_def split: option.splits)
qed

lemma the_room_end_resolution:
  "a < length (room_heap s) \<Longrightarrow>
   the_room (end_resolution a s) a = (the_room s a)\<lparr>flippedCards := [], moves := moves (the_room s a) + 1\<rparr>"
  by (simp add: end_resolution_def the_room_set_room)

text \<open>
  Claim C2. The resolution callback of a pending pair always returns, and leaves the
  players of its room as they are. When the two cards carry the same symbol,
  \<open>currentPlayer\<close> is unchanged; when they do not, and the room has a player, the new
  \<open>currentPlayer\<close> is \<open>(old + 1) mod\<close> the number of players.
\<close>

theorem resolution_turn:
  assumes "t_room t < length (room_heap s)"
  shows "\<exists>s' out. resolution s t now = Some (s', out) \<and>
           players (the_room s' (t_room t)) = players (the_room s (t_room t)) \<and>
           (symbol (the_card s (t_card1 t)) = symbol (the_card s (t_card2 t)) \<longrightarrow>
              currentPlayer (the_room s' (t_room t)) = currentPlayer (the_room s (t_room t))) \<and>
           (symbol (the_card s (t_card1 t)) \<noteq> symbol (the_card s (t_card2 t)) \<longrightarrow>
              (\<forall>n. currentPlayer (the_room s (t_room t)) = Num n \<and> players (the_room s (t_room t)) \<noteq> []
                 \<longrightarrow> currentPlayer (the_room s' (t_room t)) =
                       Num ((n + 1) mod length (players (the_room s (t_room t))))))"
proof -
  obtain s' out where r: "resolution s t now = Some (s', out)"
    using resolution_defined [of s t now] by auto
  have "players (the_room s' (t_room t)) = players (the_room s (t_room t))"
    and "symbol (the_card s (t_card1 t)) = symbol (the_card s (t_card2 t)) \<Longrightarrow>
           currentPlayer (the_room s' (t_room t)) = currentPlayer (the_room s (t_room t))"
    and "symbol (the_card s (t_card1 t)) \<noteq> symbol (the_card s (t_card2 t)) \<Longrightarrow>
           currentPlayer (the_room s (t_room t)) = Num n \<Longrightarrow> players (the_room s (t_room t)) \<noteq> [] \<Longrightarrow>
           currentPlayer (the_room s' (t_room t)) = Num ((n + 1) mod length (players (the_room s (t_room t))))"
    for n
    using r assms
    by (auto simp: resolution_def Let_def the_room_end_resolution the_room_set_room
        split: if_splits option.splits)
  then show ?thesis using r by blast
qed

text \<open>The pending pair 0 and 2 of the scenario: the turn passes from Ann to Bob.\<close>

theorem resolution_turn_witness:
  "timers pending_mismatch =
     [\<lparr>t_roomId = ''r'', t_room = 0, t_currentPlayer_id = ''A'', t_card1 = 0, t_card2 = 2\<rparr>] \<and>
   0 < length (room_heap pending_mismatch) \<and>
   symbol (the_card pending_mismatch 0) \<noteq> symbol (the_card pending_mismatch 2) \<and>
   currentPlayer (the_room pending_mismatch 0) = Num 0 \<and>
   length (players (the_room pending_mismatch 0)) = 2 \<and>
   currentPlayer (the_room (fst (the (resolution pending_mismatch
       \<lparr>t_roomId = ''r'', t_room = 0, t_currentPlayer_id = ''A'', t_card1 = 0, t_card2 = 2\<rparr> 1500))) 0)
     = Num 1"
proof -
  define t where "t = \<lparr>t_roomId = ''r'', t_room = 0, t_currentPlayer_id = ''A'', t_card1 = 0, t_card2 = 2\<rparr>"
  have 1: "timers pending_mismatch = [t]"
    and 2: "t_room t < length (room_heap pending_mismatch)"
    and 3: "symbol (the_card pending_mismatch (t_card1 t)) \<noteq> symbol (the_card pending_mismatch (t_card2 t))"
    and 4: "currentPlayer (the_room pending_mismatch (t_room t)) = Num 0"
    and 5: "length (players (the_room pending_mismatch (t_room t))) = 2"
    by (simp_all add: t_def pending_mismatch_def scenario_defs model_defs)
  from resolution_turn [OF 2, of 1500] 3 4 5
  have "currentPlayer (the_room (fst (the (resolution pending_mismatch t 1500))) (t_room t)) = Num 1"
    by auto
  then show ?thesis using 1 2 3 4 5 by (simp add: t_def)
qed

text \<open>
  The player the callback looks up as the winner: the key chosen by the reduction has a
  score that no other score exceeds, and among equal top scores the one that joined
  last is chosen.
\<close>

lemma foldl_top_scorer:
  assumes "\<forall>k \<in> set (x # xs). \<exists>n. js_get sc k = Some (Num n)"
  shows "foldl (\<lambda>a b. if js_gt (js_get sc a) (js_get sc b) then a else b) x xs \<in> set (x # xs) \<and>
         (\<forall>k \<in> set (x # xs). \<not> js_gt (js_get sc k)
            (js_get sc (foldl (\<lambda>a b. if js_gt (js_get sc a) (js_get sc b) then a else b) x xs)))"
  using assms
proof (induction xs arbitrary: x)
  case Nil
  then show ?case by auto
next
  case (Cons y ys)
  let ?f = "\<lambda>a b. if js_gt (js_get sc a) (js_get sc b) then a else b"
  obtain nx ny where n: "js_get sc x = Some (Num nx)" "js_get sc y = Some (Num ny)"
    using Cons.prems by auto
  have m: "?f x y \<in> {x, y}" by simp
  have "\<forall>k \<in> set (?f x y # ys). \<exists>n. js_get sc k = Some (Num n)"
    using Cons.prems by auto
  from Cons.IH [OF this]
  have r: "foldl ?f (?f x y) ys \<in> set (?f x y # ys)"
    and mx: "\<forall>k \<in> set (?f x y # ys). \<not> js_gt (js_get sc k) (js_get sc (foldl ?f (?f x y) ys))"
    by blast+
  have "foldl ?f (?f x y) ys \<in> set (x # y # ys)"
    using r by (cases "js_gt (js_get sc x) (js_get sc y)") auto
  then obtain nr where nr: "js_get sc (foldl ?f (?f x y) ys) = Some (Num nr)"
    using Cons.prems by blast
  have top: "\<not> js_gt (js_get sc (?f x y)) (js_get sc (foldl ?f (?f x y) ys))"
    using mx by simp
  have x: "\<not> js_gt (js_get sc x) (js_get sc (foldl ?f (?f x y) ys))"
    using top n nr by (cases "js_gt (js_get sc x) (js_get sc y)") auto
  have y: "\<not> js_gt (js_get sc y) (js_get sc (foldl ?f (?f x y) ys))"
    using top n nr by (cases "js_gt (js_get sc x) (js_get sc y)") auto
  have rest: "\<forall>k \<in> set ys. \<not> js_gt (js_get sc k) (js_get sc (foldl ?f (?f x y) ys))"
    using mx by simp
  have "foldl ?f x (y # ys) = foldl ?f (?f x y) ys" by simp
  moreover have "foldl ?f (?f x y) ys \<in> set (x # y # ys)" by fact
  ultimately show ?case using x y rest by simp
qed

lemma top_scorer_maximal:
  assumes "top_scorer sc = Some k"
    and "\<forall>v \<in> snd ` set sc. v \<noteq> NaN"
  shows "k \<in> set (Object_keys sc) \<and>
         (\<forall>k' \<in> set (Object_keys sc). \<not> js_gt (js_get sc k') (js_get sc k))"
proof -
  obtain x xs where ks: "Object_keys sc = x # xs"
    using assms(1) by (cases "Object_keys sc") (auto simp: top_scorer_def)
  have "\<exists>n. js_get sc k' = Some (Num n)" if "k' \<in> set (Object_keys sc)" for k'
  proof -
    from that obtain v0 where "(k', v0) \<in> set sc"
      by (auto simp: Object_keys_def)
    then obtain v where v: "map_of sc k' = Some v"
      using weak_map_of_SomeI by fastforce
    then have "(k', v) \<in> set sc" by (rule map_of_SomeD)
    then have "v \<in> snd ` set sc" by force
    then have "v \<noteq> NaN" using assms(2) by blast
    then show ?thesis using v by (cases v) (auto simp: js_get_def)
  qed
  then have "\<forall>k' \<in> set (x # xs). \<exists>n. js_get sc k' = Some (Num n)"
    using ks by simp
  from foldl_top_scorer [OF this] assms(1) show ?thesis
    by (simp add: top_scorer_def ks)
qed

lemma top_scorer_tie: "top_scorer [(''A'', Num 3), (''B'', Num 3), (''C'', Num 1)] = Some ''B''"
  by (simp add: top_scorer_def Object_keys_def js_get_def)

lemma winner_is_top_scorer:
  assumes "winner_of r = Some (Some p)"
    and "\<forall>v \<in> snd ` set (scores r). v \<noteq> NaN"
  shows "p \<in> set (players r) \<and>
         (\<forall>k' \<in> set (Object_keys (scores r)).
            \<not> js_gt (js_get (scores r) k') (js_get (scores r) (player_id p)))"
proof -
  from assms(1) obtain k where k: "top_scorer (scores r) = Some k"
    and f: "find_player k (players r) = Some p"
    by (auto simp: winner_of_def split: if_splits option.splits)
  from f have "p \<in> set (players r)" "player_id p = k"
    by (auto simp: find_player_def find_Some_iff)
  then show ?thesis using top_scorer_maximal [OF k assms(2)] by simp
qed

text \<open>
  Claim C7 does not hold of the callback when the top scorer has left the room. Ann finds
  all eight pairs and leaves after her last flip; when the last pair is resolved, the
  leave-room handler has removed her from \<open>players\<close> and kept her score. The game-ended
  broadcast carries the scores 8 for Ann and 0 for Bob, and the winner \<open>undefined\<close>,
  although Bob is still a player of the room.
\<close>

theorem winner_undefined:
  "run init full_game \<noteq> None \<and>
   last (emitted full_game) =
     (ToRoom ''r'', GameEnded [(''A'', Num 8), (''B'', Num 0)] 3000 7 None) \<and>
   players (the_room (final full_game) 0) = [bob]"
  by (simp add: final_def emitted_def full_game_def play_pair_def scenario_defs model_defs)

section \<open>Pause, resume and disconnect\<close>

text \<open>
  Claim C9, as the code has it. For a player of the room: a pause-game request while the
  room is paused leaves the whole state unchanged (so \<open>paused\<close>, \<open>pausedAt\<close> and
  \<open>pausedBy\<close> are as before) and, in a started room, emits nothing; a resume-game request
  while the room is not paused leaves the whole state unchanged, and in a started room
  emits nothing. In every room that is not started, the resume-game request changes
  nothing and is answered by the error
  \<open>Cannot resume: Game not started or room not found\<close>.
\<close>

theorem pause_resume_noop:
  assumes "rooms_get s roomId = Some a"
    and "find_player sock (players (the_room s a)) = Some p"
  shows "(paused (the_room s a) \<longrightarrow>
            fst (pause_game s sock roomId now) = s \<and>
            (gameStarted (the_room s a) \<longrightarrow> snd (pause_game s sock roomId now) = [])) \<and>
         (\<not> paused (the_room s a) \<longrightarrow>
            fst (resume_game s sock roomId now) = s \<and>
            (gameStarted (the_room s a) \<longrightarrow> snd (resume_game s sock roomId now) = [])) \<and>
         (\<not> gameStarted (the_room s a) \<longrightarrow>
            resume_game s sock roomId now =
              (s, [(ToSocket sock, Error ''Cannot resume: Game not started or room not found'')]))"
  using assms by (simp add: pause_game_def resume_game_def Let_def)

text \<open>
  Ann pauses the game Bob has paused, Ann resumes the running game, and Bob asks to
  resume in the lobby.
\<close>

theorem pause_resume_noop_witness:
  "rooms_get paused_game ''r'' = Some 0 \<and>
   find_player ''A'' (players (the_room paused_game 0)) = Some ann \<and>
   paused (the_room paused_game 0) \<and> pausedBy (the_room paused_game 0) = Some ''B'' \<and>
   pausedAt (the_room paused_game 0) = Some 5000 \<and>
   pause_game paused_game ''A'' ''r'' 6000 = (paused_game, []) \<and>
   \<not> paused (the_room playing 0) \<and> resume_game playing ''A'' ''r'' 6000 = (playing, []) \<and>
   rooms_get lobby ''r'' = Some 0 \<and>
   find_player ''B'' (players (the_room lobby 0)) = Some bob \<and>
   \<not> gameStarted (the_room lobby 0) \<and>
   resume_game lobby ''B'' ''r'' 6000 =
     (lobby, [(ToSocket ''B'', Error ''Cannot resume: Game not started or room not found'')])"
proof -
  have 1: "rooms_get paused_game ''r'' = Some 0"
    and 2: "find_player ''A'' (players (the_room paused_game 0)) = Some ann"
    and 3: "paused (the_room paused_game 0)" "gameStarted (the_room paused_game 0)"
      "pausedBy (the_room paused_game 0) = Some ''B''"
      "pausedAt (the_room paused_game 0) = Some 5000"
    by (simp_all add: paused_game_def scenario_defs model_defs)
  have 4: "rooms_get playing ''r'' = Some 0"
    and 5: "find_player ''A'' (players (the_room playing 0)) = Some ann"
    and 6: "\<not> paused (the_room playing 0)" "gameStarted (the_room playing 0)"
    by (simp_all add: scenario_defs model_defs)
  have 7: "rooms_get lobby ''r'' = Some 0"
    and 8: "find_player ''B'' (players (the_room lobby 0)) = Some bob"
    and 9: "\<not> gameStarted (the_room lobby 0)"
    by (simp_all add: scenario_defs model_defs)
  from pause_resume_noop [OF 1 2, of 6000] 3
  have "pause_game paused_game ''A'' ''r'' 6000 = (paused_game, [])"
    by (simp add: prod_eq_iff)
  moreover from pause_resume_noop [OF 4 5, of 6000] 6
  have "resume_game playing ''A'' ''r'' 6000 = (playing, [])"
    by (simp add: prod_eq_iff)
  moreover from pause_resume_noop [OF 7 8, of 6000] 9
  have "resume_game lobby ''B'' ''r'' 6000 =
     (lobby, [(ToSocket ''B'', Error ''Cannot resume: Game not started or room not found'')])"
    by blast
  ultimately show ?thesis using 1 2 3 6 7 8 9 by simp
qed

text \<open>
  Claim C9 as stated fails in the lobby: the room is not paused, Ann is a player of it,
  and her resume-game request is answered by an error.
\<close>

theorem resume_lobby_counterexample:
  "rooms_get lobby ''r'' = Some 0 \<and> \<not> paused (the_room lobby 0) \<and>
   find_player ''A'' (players (the_room lobby 0)) = Some ann \<and>
   resume_game lobby ''A'' ''r'' 6000 =
     (lobby, [(ToSocket ''A'', Error ''Cannot resume: Game not started or room not found'')])"
  by (simp add: scenario_defs model_defs)



text \<open>
  Rooms that stay paused. Only the resume-game handler ever clears \<open>paused\<close>, and it
  reaches a room object through the id bound to it; the room map binds an id only to a
  room object it has just allocated, so in every reachable state an object is bound to
  at most one id.
\<close>

lemma the_room_set_room_if:
  "the_room (set_room b r s) a =
     (if a = b \<and> b < length (room_heap s) then r else the_room s a)"
  by (auto simp: the_room_def set_room_def list_update_beyond)

lemma rooms_set_room [simp]: "rooms (set_room a r s) = rooms s"
  by (simp add: set_room_def)

lemma rooms_set_card [simp]: "rooms (set_card c v s) = rooms s"
  by (simp add: set_card_def)


lemma room_heap_addPlayerToRoom:
  "length (room_heap (fst (addPlayerToRoom s roomId p))) = length (room_heap s)"
  by (simp add: addPlayerToRoom_def Let_def split: option.splits)





lemma the_room_other_fields [simp]:
  "the_room (s\<lparr>players_gs := x\<rparr>) a = the_room s a"
  "the_room (s\<lparr>rooms := y\<rparr>) a = the_room s a"
  "the_room (s\<lparr>timers := z\<rparr>) a = the_room s a"
  "the_room (s\<lparr>card_heap := w\<rparr>) a = the_room s a"
  by (simp_all add: the_room_def)

lemma set_room_card_heap:
  "room_heap (set_room b r (s\<lparr>card_heap := w\<rparr>)) = room_heap (set_room b r s)"
  by (simp add: set_room_def)

lemma held_set_card [simp]: "held (set_card c v s) a = held s a"
  by (simp add: held_def)

lemma held_players_gs [simp]: "held (s\<lparr>players_gs := x\<rparr>) a = held s a"
  by (simp add: held_def the_room_def)

lemma held_rooms [simp]: "held (s\<lparr>rooms := x\<rparr>) a = held s a"
  by (simp add: held_def the_room_def)

lemma held_timers [simp]: "held (s\<lparr>timers := x\<rparr>) a = held s a"
  by (simp add: held_def the_room_def)

lemma held_card_heap [simp]: "held (s\<lparr>card_heap := x\<rparr>) a = held s a"
  by (simp add: held_def the_room_def)

lemma held_set_room:
  assumes "held s a" "b = a \<Longrightarrow> gameStarted r \<and> paused r"
  shows "held (set_room b r s) a"
  using assms by (auto simp: held_def the_room_set_room_if)





















end
